theory Spec2Isabelle
  imports Complex_Main "HOL-Library.Sublist"
begin

section \<open>JavaScript values\<close>

text \<open>
  The module under verification is the TypeScript service that builds the prompts of the
  reporter simulator, sends them to a generative model through \<open>retryRequest\<close>, parses the
  JSON payload and falls back to fixed placeholder results.  It is embedded here function by
  function; the line numbers in the comments refer to that service module.

  Strings are byte lists holding the UTF-8 encoding of the JavaScript string.  The module
  only concatenates strings, compares them for equality, tests them for emptiness and
  searches for the ASCII substring \<open>429\<close>; all of these agree on UTF-8 and on UTF-16 for
  well-formed strings.  Text outside ASCII is written as a list of Unicode code points and
  encoded by \<open>utf8\<close>.
\<close>

definition utf8_encode :: "nat \<Rightarrow> string" where
  "utf8_encode n =
     (if n < 0x80 then [char_of n]
      else if n < 0x800 then [char_of (0xC0 + n div 0x40), char_of (0x80 + n mod 0x40)]
      else if n < 0x10000 then
        [char_of (0xE0 + n div 0x1000), char_of (0x80 + n div 0x40 mod 0x40),
         char_of (0x80 + n mod 0x40)]
      else
        [char_of (0xF0 + n div 0x40000), char_of (0x80 + n div 0x1000 mod 0x40),
         char_of (0x80 + n div 0x40 mod 0x40), char_of (0x80 + n mod 0x40)])"

definition utf8 :: "nat list \<Rightarrow> string" where
  "utf8 cps = concat (map utf8_encode cps)"

text \<open>
  A value produced by \<open>JSON.parse\<close>.  Numbers are rationals: every finite double is one, and
  the module never does arithmetic on a parsed number.  An object keeps its members in the
  order of the text; a property read takes the last member of that name, as \<open>JSON.parse\<close>
  keeps the last of several duplicates.  \<open>undefined\<close> is \<open>None\<close> of an option.
\<close>

datatype json =
    JNull
  | JBool bool
  | JNumber rat
  | JString string
  | JArray "json list"
  | JObject "(string \<times> json) list"

text \<open>
  The value an operation rejects with is caught as \<open>error: any\<close>.  The module reads three
  properties of it, \<open>status\<close>, \<open>code\<close> and \<open>message\<close>; each is absent (\<open>None\<close>, also when the
  thrown value is nullish or a primitive) or holds a value of one of the JSON kinds.

  What can be thrown inside the module: the value an operation rejected with (rethrown by
  \<open>retryRequest\<close>), \<open>new Error(msg)\<close>, the \<open>SyntaxError\<close> of \<open>JSON.parse\<close>, and the
  \<open>TypeError\<close> of a property read on \<open>null\<close> or of a call of something that is no function.
\<close>

record js_error =
  status :: "json option"
  code :: "json option"
  message :: "json option"

datatype exn =
    Rejected js_error
  | Error string
  | SyntaxError
  | TypeError

text \<open>
  \<open>data.key\<close> for a parsed value \<open>data\<close> and one of the keys the module reads (\<open>title\<close>,
  \<open>content\<close>, \<open>category\<close>): reading a property of \<open>null\<close> throws, an object yields its own
  property or \<open>undefined\<close>, and no primitive or array has a property of these names.
\<close>

definition get_prop :: "json \<Rightarrow> string \<Rightarrow> exn + json option" where
  "get_prop data key =
     (case data of
        JNull \<Rightarrow> Inl TypeError
      | JObject members \<Rightarrow> Inr (map_of (rev members) key)
      | _ \<Rightarrow> Inr None)"

text \<open>Truthiness of an optional string: \<open>undefined\<close> and the empty string are falsy.\<close>

definition truthy :: "string option \<Rightarrow> bool" where
  "truthy s = (case s of None \<Rightarrow> False | Some t \<Rightarrow> t \<noteq> [])"

text \<open>\<open>haystack.includes(needle)\<close> on strings.\<close>

fun str_includes :: "string \<Rightarrow> string \<Rightarrow> bool" where
  "str_includes [] needle = (needle = [])"
| "str_includes (c # cs) needle = (prefix needle (c # cs) \<or> str_includes cs needle)"

text \<open>\<open>xs.join(sep)\<close> on an array of strings.\<close>

fun join :: "string list \<Rightarrow> string \<Rightarrow> string" where
  "join [] sep = []"
| "join [x] sep = x"
| "join (x # y # ys) sep = x @ sep @ join (y # ys) sep"

subsection \<open>Numbers: \<open>parseInt\<close> and the conversion to a string\<close>

text \<open>
  A year is a JavaScript number: \<open>NaN\<close> (\<open>None\<close>) or the double nearest to an integer, which
  the model represents by that integer.  Below \<open>2^53\<close> in magnitude the double is the integer
  itself.  From \<open>2^53\<close> on the double may differ from the integer by rounding, but it stays
  on the same side of every number below \<open>2^53\<close>, and these are the only numbers the module
  compares a year with; so the comparisons on the integers are those of the code.  Every
  comparison with \<open>NaN\<close> is false.
\<close>

type_synonym number = "int option"

definition lt :: "number \<Rightarrow> number \<Rightarrow> bool" where
  "lt a b = (case (a, b) of (Some x, Some y) \<Rightarrow> x < y | _ \<Rightarrow> False)"

definition gt :: "number \<Rightarrow> number \<Rightarrow> bool" where
  "gt a b = lt b a"

definition ge :: "number \<Rightarrow> number \<Rightarrow> bool" where
  "ge a b = (case (a, b) of (Some x, Some y) \<Rightarrow> x \<ge> y | _ \<Rightarrow> False)"

definition plus_number :: "number \<Rightarrow> number \<Rightarrow> number" where
  "plus_number a b = (case (a, b) of (Some x, Some y) \<Rightarrow> Some (x + y) | _ \<Rightarrow> None)"

function natToString :: "nat \<Rightarrow> string" where
  "natToString n =
     (if n < 10 then [''0123456789'' ! n]
      else natToString (n div 10) @ [''0123456789'' ! (n mod 10)])"
  by pat_completeness auto
termination
  by (relation "measure (\<lambda>n. n)") auto

text \<open>
  The string a template literal interpolates for a number: the decimal digits of an integer
  below \<open>2^53\<close> in magnitude.  From \<open>2^53\<close> on JavaScript prints the digits of the rounded
  double, in exponent form from \<open>1e21\<close> on; that string is the parameter \<open>big\<close>, a function of
  the integer.
\<close>

definition numberToString :: "(int \<Rightarrow> string) \<Rightarrow> number \<Rightarrow> string" where
  "numberToString big x =
     (case x of
        None \<Rightarrow> ''NaN''
      | Some i \<Rightarrow>
          if \<bar>i\<bar> < 2 ^ 53 then
            (if i < 0 then CHR ''-'' # natToString (nat (- i)) else natToString (nat i))
          else big i)"

text \<open>
  \<open>parseInt(s)\<close> with no radix (ECMA-262, 19.2.5): leading white space is dropped, then an
  optional sign, then a \<open>0x\<close> or \<open>0X\<close> prefix selects radix 16, and the longest prefix of
  digits of the radix is the value; no digit gives \<open>NaN\<close>.  White space is every
  \<open>StrWhiteSpaceChar\<close>: tab, line feed, vertical tab, form feed, carriage return, the byte
  order mark \<open>U+FEFF\<close>, the line and paragraph separators \<open>U+2028\<close> and \<open>U+2029\<close>, and the
  space separators of Unicode.
\<close>

definition whiteSpace :: "nat list" where
  "whiteSpace =
     [0x9, 0xA, 0xB, 0xC, 0xD, 0x20, 0xA0, 0x1680,
      0x2000, 0x2001, 0x2002, 0x2003, 0x2004, 0x2005, 0x2006, 0x2007, 0x2008, 0x2009, 0x200A,
      0x2028, 0x2029, 0x202F, 0x205F, 0x3000, 0xFEFF]"

function skipWhiteSpace :: "string \<Rightarrow> string" where
  "skipWhiteSpace s =
     (case find (\<lambda>cp. prefix (utf8_encode cp) s) whiteSpace of
        None \<Rightarrow> s
      | Some cp \<Rightarrow> skipWhiteSpace (drop (length (utf8_encode cp)) s))"
  by pat_completeness auto
termination
proof (relation "measure length")
  show "wf (measure length)" by simp
next
  fix s :: string and cp :: nat
  assume "find (\<lambda>cp. prefix (utf8_encode cp) s) whiteSpace = Some cp"
  then have p: "prefix (utf8_encode cp) s"
    by (auto simp: find_Some_iff)
  have n: "0 < length (utf8_encode cp)"
    by (simp add: utf8_encode_def)
  have le: "length (utf8_encode cp) \<le> length s"
    using p by (rule prefix_length_le)
  show "(drop (length (utf8_encode cp)) s, s) \<in> measure length"
    using n le unfolding in_measure length_drop by linarith
qed

definition digitValue :: "nat \<Rightarrow> char \<Rightarrow> nat option" where
  "digitValue radix c =
     (let n = (of_char c :: nat);
          v = (if 48 \<le> n \<and> n \<le> 57 then Some (n - 48)
               else if 97 \<le> n \<and> n \<le> 102 then Some (n - 87)
               else if 65 \<le> n \<and> n \<le> 70 then Some (n - 55)
               else None)
      in case v of None \<Rightarrow> None | Some d \<Rightarrow> if d < radix then Some d else None)"

fun digitsValue :: "nat \<Rightarrow> nat \<Rightarrow> string \<Rightarrow> nat" where
  "digitsValue radix acc [] = acc"
| "digitsValue radix acc (c # cs) =
     (case digitValue radix c of
        None \<Rightarrow> acc
      | Some d \<Rightarrow> digitsValue radix (acc * radix + d) cs)"

definition parseInt :: "string \<Rightarrow> number" where
  "parseInt inputString =
     (let S = skipWhiteSpace inputString;
          negative = (S \<noteq> [] \<and> hd S = CHR ''-'');
          S1 = (if S \<noteq> [] \<and> (hd S = CHR ''+'' \<or> hd S = CHR ''-'') then tl S else S);
          hex = (prefix ''0x'' S1 \<or> prefix ''0X'' S1);
          R = (if hex then 16 else 10);
          S2 = (if hex then drop 2 S1 else S1)
      in if S2 = [] \<or> digitValue R (hd S2) = None then None
         else if negative then Some (- int (digitsValue R 0 S2))
         else Some (int (digitsValue R 0 S2)))"

subsection \<open>An executable fragment of \<open>JSON.parse\<close>\<close>

text \<open>
  The entry points take \<open>JSON.parse\<close> as a parameter (the field \<open>JSON_parse\<close> of the
  environment below; \<open>None\<close> stands for the \<open>SyntaxError\<close>), so what is proved of them holds
  for the real parser.  For the worked examples the parameter is this parser of the JSON
  grammar without string escapes, fractions and exponents, where it returns \<open>None\<close>.  On the
  texts it accepts it computes the value of \<open>JSON.parse\<close>.  The first argument of
  \<open>parse_value\<close> bounds the nesting of the recursion; \<open>json_parse\<close> starts it above the
  length of the text.
\<close>

definition isJsonSpace :: "char \<Rightarrow> bool" where
  "isJsonSpace c = (c \<in> set [CHR '' '', CHR 0x09, CHR 0x0A, CHR 0x0D])"

definition isDigit :: "char \<Rightarrow> bool" where
  "isDigit c = (48 \<le> (of_char c :: nat) \<and> (of_char c :: nat) \<le> 57)"

definition expect :: "char \<Rightarrow> string \<Rightarrow> string option" where
  "expect c cs =
     (case dropWhile isJsonSpace cs of
        [] \<Rightarrow> None
      | d # rest \<Rightarrow> if d = c then Some rest else None)"

fun parse_string_chars :: "string \<Rightarrow> (string \<times> string) option" where
  "parse_string_chars [] = None"
| "parse_string_chars (c # cs) =
     (if c = CHR 0x22 then Some ([], cs)
      else if c = CHR 0x5C \<or> (of_char c :: nat) < 0x20 then None
      else (case parse_string_chars cs of
              None \<Rightarrow> None
            | Some (str, rest) \<Rightarrow> Some (c # str, rest)))"

definition parse_number :: "string \<Rightarrow> (json \<times> string) option" where
  "parse_number cs =
     (let negative = (cs \<noteq> [] \<and> hd cs = CHR ''-'');
          cs1 = (if negative then tl cs else cs);
          ds = takeWhile isDigit cs1;
          rest = dropWhile isDigit cs1
      in if ds = [] \<or> (length ds > 1 \<and> hd ds = CHR ''0'') then None
         else if rest \<noteq> [] \<and> hd rest \<in> set [CHR ''.'', CHR ''e'', CHR ''E''] then None
         else if negative then Some (JNumber (of_int (- int (digitsValue 10 0 ds))), rest)
         else Some (JNumber (of_int (int (digitsValue 10 0 ds))), rest))"

fun parse_value :: "nat \<Rightarrow> string \<Rightarrow> (json \<times> string) option"
  and parse_elements :: "nat \<Rightarrow> string \<Rightarrow> (json list \<times> string) option"
  and parse_members :: "nat \<Rightarrow> string \<Rightarrow> ((string \<times> json) list \<times> string) option" where
  "parse_value 0 cs = None"
| "parse_value (Suc k) cs =
     (let s = dropWhile isJsonSpace cs in
      if s = [] then None
      else if hd s = CHR ''{'' then
        (case expect (CHR ''}'') (tl s) of
           Some rest \<Rightarrow> Some (JObject [], rest)
         | None \<Rightarrow> (case parse_members k (tl s) of
                      None \<Rightarrow> None
                    | Some (members, rest) \<Rightarrow> Some (JObject members, rest)))
      else if hd s = CHR ''['' then
        (case expect (CHR '']'') (tl s) of
           Some rest \<Rightarrow> Some (JArray [], rest)
         | None \<Rightarrow> (case parse_elements k (tl s) of
                      None \<Rightarrow> None
                    | Some (elements, rest) \<Rightarrow> Some (JArray elements, rest)))
      else if hd s = CHR 0x22 then
        (case parse_string_chars (tl s) of
           None \<Rightarrow> None
         | Some (str, rest) \<Rightarrow> Some (JString str, rest))
      else if prefix ''true'' s then Some (JBool True, drop 4 s)
      else if prefix ''false'' s then Some (JBool False, drop 5 s)
      else if prefix ''null'' s then Some (JNull, drop 4 s)
      else parse_number s)"
| "parse_elements 0 cs = None"
| "parse_elements (Suc k) cs =
     (case parse_value k cs of
        None \<Rightarrow> None
      | Some (v, rest) \<Rightarrow>
          (case expect (CHR '','') rest of
             Some rest' \<Rightarrow>
               (case parse_elements k rest' of
                  None \<Rightarrow> None
                | Some (vs, rest'') \<Rightarrow> Some (v # vs, rest''))
           | None \<Rightarrow>
               (case expect (CHR '']'') rest of
                  None \<Rightarrow> None
                | Some rest' \<Rightarrow> Some ([v], rest'))))"
| "parse_members 0 cs = None"
| "parse_members (Suc k) cs =
     (case expect (CHR 0x22) cs of
        None \<Rightarrow> None
      | Some cs1 \<Rightarrow>
          (case parse_string_chars cs1 of
             None \<Rightarrow> None
           | Some (key, cs2) \<Rightarrow>
               (case expect (CHR '':'') cs2 of
                  None \<Rightarrow> None
                | Some cs3 \<Rightarrow>
                    (case parse_value k cs3 of
                       None \<Rightarrow> None
                     | Some (v, rest) \<Rightarrow>
                         (case expect (CHR '','') rest of
                            Some rest' \<Rightarrow>
                              (case parse_members k rest' of
                                 None \<Rightarrow> None
                               | Some (members, rest'') \<Rightarrow> Some ((key, v) # members, rest''))
                          | None \<Rightarrow>
                              (case expect (CHR ''}'') rest of
                                 None \<Rightarrow> None
                               | Some rest' \<Rightarrow> Some ([(key, v)], rest')))))))"

definition json_parse :: "string \<Rightarrow> json option" where
  "json_parse s =
     (case parse_value (Suc (length s)) s of
        None \<Rightarrow> None
      | Some (v, rest) \<Rightarrow> if dropWhile isJsonSpace rest = [] then Some v else None)"

section \<open>\<open>retryRequest\<close> (lines 6-18)\<close>

text \<open>
  \<open>requestFn\<close> is an effectful operation: a function of the state of the outside world
  (the generation service) that yields the settled promise, \<open>Inl\<close> the rejection and \<open>Inr\<close>
  the value, and the next state; the model covers the operations whose promise settles.
  The world also records, for the statements below, the delays handed to \<open>setTimeout\<close>
  in order and the number of invocations of \<open>requestFn\<close>.

  \<open>retries\<close> and \<open>delay\<close> are natural numbers: the function is private to the module and
  all three call sites use the defaults 3 and 2000.  The \<open>console\<close> output is not modelled.
\<close>

record 's world =
  capability :: 's
  timers :: "nat list"
  invocations :: nat

definition invoke ::
  "('s \<Rightarrow> (js_error + 'a) \<times> 's) \<Rightarrow> 's world \<Rightarrow> (js_error + 'a) \<times> 's world" where
  "invoke requestFn w =
     (case requestFn (capability w) of
        (r, s') \<Rightarrow> (r, w\<lparr>capability := s', invocations := Suc (invocations w)\<rparr>))"

definition setTimeout :: "nat \<Rightarrow> 's world \<Rightarrow> 's world" where
  "setTimeout delay w = w\<lparr>timers := timers w @ [delay]\<rparr>"

text \<open>
  \<open>error?.message?.includes('429')\<close>: an absent or \<open>null\<close> message gives \<open>undefined\<close>, which is
  falsy; a string is searched for the substring and an array for the element; a number, a
  boolean or an object has no method \<open>includes\<close>, and the call throws a \<open>TypeError\<close>.
\<close>

fun messageIncludes429 :: "json option \<Rightarrow> exn + bool" where
  "messageIncludes429 None = Inr False"
| "messageIncludes429 (Some JNull) = Inr False"
| "messageIncludes429 (Some (JString m)) = Inr (str_includes m ''429'')"
| "messageIncludes429 (Some (JArray xs)) = Inr (JString ''429'' \<in> set xs)"
| "messageIncludes429 (Some (JBool b)) = Inl TypeError"
| "messageIncludes429 (Some (JNumber n)) = Inl TypeError"
| "messageIncludes429 (Some (JObject members)) = Inl TypeError"

text \<open>
  Line 11: \<open>error?.status === 429 || error?.code === 429 || error?.message?.includes('429')\<close>,
  evaluated from left to right: the message is looked at only when neither the status nor
  the code is the number 429.
\<close>

definition rateLimitSignal :: "js_error \<Rightarrow> exn + bool" where
  "rateLimitSignal error =
     (if status error = Some (JNumber 429) then Inr True
      else if code error = Some (JNumber 429) then Inr True
      else messageIncludes429 (message error))"

text \<open>
  The function settles to \<open>Inr\<close> the value of the operation or to \<open>Inl\<close> what it throws:
  \<open>Rejected error\<close> for \<open>throw error\<close>, or the \<open>TypeError\<close> raised while the condition of line
  11 is evaluated, which happens inside the \<open>catch\<close> block and so leaves the function.  The
  condition is evaluated only when \<open>retries > 0\<close>.
\<close>

function retryRequest ::
  "('s \<Rightarrow> (js_error + 'a) \<times> 's) \<Rightarrow> nat \<Rightarrow> nat \<Rightarrow> 's world \<Rightarrow> (exn + 'a) \<times> 's world" where
  "retryRequest requestFn retries delay w =
     (case invoke requestFn w of
        (Inr v, w1) \<Rightarrow> (Inr v, w1)
      | (Inl error, w1) \<Rightarrow>
          if retries > 0 then
            (case rateLimitSignal error of
               Inl e \<Rightarrow> (Inl e, w1)
             | Inr signal \<Rightarrow>
                 if signal
                 then retryRequest requestFn (retries - 1) (delay * 2) (setTimeout delay w1)
                 else (Inl (Rejected error), w1))
          else (Inl (Rejected error), w1))"
  by pat_completeness auto
termination
  by (relation "measure (\<lambda>(requestFn, retries, delay, w). retries)") auto

subsection \<open>The behaviour of an operation over successive invocations\<close>

text \<open>
  \<open>state_after requestFn n s\<close> is the state of the service after \<open>n\<close> invocations from \<open>s\<close>,
  \<open>outcome requestFn n s\<close> what invocation number \<open>n\<close> (counted from 0) settles to, and
  \<open>retriesUsed requestFn r s\<close> the number of leading rate-limited outcomes, at most \<open>r\<close>.
  \<open>surfaced retriesLeft r\<close> is what a call settles to when \<open>r\<close> is the outcome of its last
  invocation and \<open>retriesLeft\<close> tells whether retries remained then.
\<close>

fun state_after :: "('s \<Rightarrow> (js_error + 'a) \<times> 's) \<Rightarrow> nat \<Rightarrow> 's \<Rightarrow> 's" where
  "state_after requestFn 0 s = s"
| "state_after requestFn (Suc n) s = state_after requestFn n (snd (requestFn s))"

definition outcome :: "('s \<Rightarrow> (js_error + 'a) \<times> 's) \<Rightarrow> nat \<Rightarrow> 's \<Rightarrow> js_error + 'a" where
  "outcome requestFn n s = fst (requestFn (state_after requestFn n s))"

definition rateLimited :: "js_error + 'a \<Rightarrow> bool" where
  "rateLimited r = (case r of Inl error \<Rightarrow> rateLimitSignal error = Inr True | Inr v \<Rightarrow> False)"

definition surfaced :: "bool \<Rightarrow> js_error + 'a \<Rightarrow> exn + 'a" where
  "surfaced retriesLeft r =
     (case r of
        Inr v \<Rightarrow> Inr v
      | Inl error \<Rightarrow>
          if retriesLeft then
            (case rateLimitSignal error of
               Inl e \<Rightarrow> Inl e
             | Inr signal \<Rightarrow> Inl (Rejected error))
          else Inl (Rejected error))"

fun retriesUsed :: "('s \<Rightarrow> (js_error + 'a) \<times> 's) \<Rightarrow> nat \<Rightarrow> 's \<Rightarrow> nat" where
  "retriesUsed requestFn 0 s = 0"
| "retriesUsed requestFn (Suc r) s =
     (if rateLimited (fst (requestFn s))
      then Suc (retriesUsed requestFn r (snd (requestFn s))) else 0)"

definition backoff :: "nat \<Rightarrow> nat \<Rightarrow> nat list" where
  "backoff delay k = map (\<lambda>i. delay * 2 ^ i) [0..<k]"

section \<open>The article and its era context\<close>

text \<open>
  Modelled from the spec: the type \<open>Article\<close>, which is declared in the module \<open>./types\<close>.
  It has a title, a content, a category (a value of the enum), an author, the mode flags, the
  target year and the optional context of the previous article (section 3 of the
  specification).  The fields have the types this module uses them at: the flags are
  booleans (an absent flag is falsy), \<open>targetYear\<close>, the argument of \<open>parseInt\<close>, and
  \<open>previousArticleContext\<close> are optional strings.
\<close>

record Article =
  title :: string
  content :: string
  category :: string
  author :: string
  isEmergencyMode :: bool
  isCrazyMode :: bool
  isFakeNews :: bool
  isTimeMachineMode :: bool
  targetYear :: "string option"
  previousArticleContext :: "string option"

text \<open>
  Modelled from the spec: the type \<open>Comment\<close>, which is declared in the module \<open>./types\<close>.
  Of its fields (platform, user name, content, like count, sentiment, replies) the record
  has the three that this module reads.
\<close>

record Comment =
  username :: string
  content :: string
  platform :: string

text \<open>
  The parameters of the module: the parser \<open>JSON.parse\<close> (\<open>None\<close> stands for its
  \<open>SyntaxError\<close>), the values of the string enum \<open>ArticleCategory\<close> and its member \<open>SOCIETY\<close>
  (the enum is declared in \<open>./types\<close>), the year of the clock, \<open>new Date().getFullYear()\<close>,
  and the string that JavaScript prints for the double nearest to an integer of magnitude
  \<open>2^53\<close> or more.
\<close>

record env =
  JSON_parse :: "string \<Rightarrow> json option"
  ArticleCategory_values :: "string list"
  ArticleCategory_SOCIETY :: string
  getFullYear :: int
  doubleToString :: "int \<Rightarrow> string"

subsection \<open>\<open>getEraContext\<close> (lines 20-32)\<close>

text \<open>
  Line 25, after the interpolated year: the pre-1990 directive (no internet; the tone of letters to the
  paper, radio and wall posters).
\<close>

definition ERA_PRE1990 :: string where
  "ERA_PRE1990 =
     utf8 [0xB144, 0xB3C4, 0xC785, 0xB2C8, 0xB2E4, 0x2E, 0x20, 0xC778, 0xD130, 0xB137, 0xC774,
     0x20, 0xC5C6, 0xC73C, 0xBBC0, 0xB85C, 0x20, 0xC2E0, 0xBB38, 0x20, 0xD22C, 0xACE0, 0x2C,
     0x20, 0xB77C, 0xB514, 0xC624, 0x20, 0xC0AC, 0xC5F0, 0x2C, 0x20, 0xB300, 0xC790, 0xBCF4,
     0x20, 0xB4F1, 0xC758, 0x20, 0xB9D0, 0xD22C, 0x28, 0xD558, 0xC624, 0xCCB4, 0x2C, 0x20,
     0xC74D, 0xB2C8, 0xB2E4, 0x20, 0xB4F1, 0x29, 0xB97C, 0x20, 0xC0AC, 0xC6A9, 0xD558, 0xC138,
     0xC694, 0x2E]"

text \<open>Line 26, after the interpolated year: the 1990s directive (the tone of the dial-up bulletin boards).\<close>

definition ERA_1990S :: string where
  "ERA_1990S =
     utf8 [0xB144, 0xB3C4, 0x20, 0x50, 0x43, 0xD1B5, 0xC2E0, 0x20, 0xC2DC, 0xB300, 0x28, 0xD558,
     0xC774, 0xD154, 0x2C, 0x20, 0xCC9C, 0xB9AC, 0xC548, 0x29, 0x20, 0xB9D0, 0xD22C, 0x28, 0x7E,
     0xC148, 0x2C, 0x20, 0x7E, 0xC784, 0x2C, 0x20, 0xBC29, 0xAC00, 0x29, 0xB97C, 0x20, 0xC0AC,
     0xC6A9, 0xD558, 0xC138, 0xC694, 0x2E]"

text \<open>Line 27, after the interpolated year: the 2000s directive (the tone of the early social networks).\<close>

definition ERA_2000S :: string where
  "ERA_2000S =
     utf8 [0xB144, 0xB3C4, 0x20, 0xC2F8, 0xC774, 0xC6D4, 0xB4DC, 0x2F, 0xCD08, 0xAE30, 0x20,
     0xC778, 0xD130, 0xB137, 0x20, 0xAC10, 0xC131, 0x28, 0xC774, 0xBAA8, 0xD2F0, 0xCF58, 0x2C,
     0x20, 0xD38C, 0xD0A8, 0xC871, 0x20, 0xB4F1, 0x29, 0xC744, 0x20, 0xBC18, 0xC601, 0xD558,
     0xC138, 0xC694, 0x2E]"

text \<open>Line 28, after the interpolated year: the future directive.\<close>

definition ERA_FUTURE :: string where
  "ERA_FUTURE =
     utf8 [0xB144, 0xB3C4, 0x20, 0xBBF8, 0xB798, 0x20, 0xC2DC, 0xB300, 0xC785, 0xB2C8, 0xB2E4,
     0x2E]"

text \<open>Line 29, after the interpolated year: the reflect-era directive.\<close>

definition ERA_REFLECT :: string where
  "ERA_REFLECT =
     utf8 [0xB144, 0xB3C4, 0xC758, 0x20, 0xC2DC, 0xB300, 0xC0C1, 0xC744, 0x20, 0xBC18, 0xC601,
     0xD558, 0xC138, 0xC694, 0x2E]"

text \<open>Line 31: the contemporary directive, returned when time-machine mode is off.\<close>

definition ERA_MODERN :: string where
  "ERA_MODERN =
     utf8 [0xD604, 0xB300, 0x28, 0x32, 0x30, 0x32, 0x34, 0xB144, 0x29, 0xC758, 0x20, 0xC778,
     0xD130, 0xB137, 0x20, 0xB313, 0xAE00, 0x20, 0xB9D0, 0xD22C, 0xB97C, 0x20, 0xC0AC, 0xC6A9,
     0xD558, 0xC138, 0xC694, 0x2E]"

text \<open>\<open>parseInt\<close> of an optional string: \<open>parseInt(undefined)\<close> is \<open>NaN\<close>.\<close>

definition parseIntOf :: "string option \<Rightarrow> number" where
  "parseIntOf s = (case s of None \<Rightarrow> None | Some t \<Rightarrow> parseInt t)"

definition getEraContext :: "env \<Rightarrow> Article \<Rightarrow> string" where
  "getEraContext env article =
     (let currentYear = Some (getFullYear env);
          targetYear =
            (if isTimeMachineMode article \<and> truthy (targetYear article)
             then parseIntOf (targetYear article) else currentYear);
          year = numberToString (doubleToString env) targetYear
      in if isTimeMachineMode article then
           (if lt targetYear (Some 1990) then year @ ERA_PRE1990
            else if lt targetYear (Some 2000) then year @ ERA_1990S
            else if lt targetYear (Some 2010) then year @ ERA_2000S
            else if gt targetYear (plus_number currentYear (Some 5)) then year @ ERA_FUTURE
            else year @ ERA_REFLECT)
         else ERA_MODERN)"

section \<open>The generation request\<close>

text \<open>
  The argument of \<open>ai.models.generateContent\<close>: the model, the prompt and the configuration
  with the response schema (\<open>Type.OBJECT\<close> with its properties and its \<open>required\<close> list,
  \<open>Type.ARRAY\<close> with its items, and the scalar types).  The response is read only through
  its \<open>text\<close> property, here \<open>response_text\<close>.  The capability itself is a parameter
  \<open>generateContent\<close>: for a request, an operation on the state of the service.
\<close>

datatype schema =
    STRING
  | STRING_ENUM "string list"
  | NUMBER
  | INTEGER
  | ARRAY schema
  | OBJECT "(string \<times> schema) list" "string list"

record config =
  systemInstruction :: "string option"
  responseMimeType :: string
  responseSchema :: schema

record request =
  model :: string
  contents :: string
  config :: config

record GenerateContentResponse =
  response_text :: "string option"

type_synonym 's generateContent =
  "request \<Rightarrow> 's \<Rightarrow> (js_error + GenerateContentResponse) \<times> 's"

text \<open>The \<open>required\<close> list of an object schema.\<close>

fun required :: "schema \<Rightarrow> string list" where
  "required (OBJECT properties req) = req"
| "required _ = []"

text \<open>An object literal of the module: its keys in order, each with a value or \<open>undefined\<close>.\<close>

type_synonym js_object = "(string \<times> json option) list"

section \<open>\<open>generateRandomArticle\<close> (lines 34-97)\<close>

text \<open>Line 39: the default directive (an ordinary article on a random topic).\<close>

definition MODE_DEFAULT :: string where
  "MODE_DEFAULT =
     utf8 [0xC77C, 0xBC18, 0xC801, 0xC778, 0x20, 0xB274, 0xC2A4, 0x20, 0xAE30, 0xC0AC, 0xB97C,
     0x20, 0xB79C, 0xB364, 0xD55C, 0x20, 0xC8FC, 0xC81C, 0xB85C, 0x20, 0xC791, 0xC131, 0xD558,
     0xC138, 0xC694, 0x2E]"

text \<open>Line 40: the emergency directive (breaking news of a national emergency).\<close>

definition MODE_EMERGENCY :: string where
  "MODE_EMERGENCY =
     utf8 [0xAD6D, 0xAC00, 0x20, 0xBE44, 0xC0C1, 0xC0AC, 0xD0DC, 0x2C, 0x20, 0xC804, 0xC7C1,
     0x2C, 0x20, 0xC7AC, 0xB09C, 0x20, 0xB4F1, 0x20, 0xB9E4, 0xC6B0, 0x20, 0xC704, 0xAE09,
     0xD55C, 0x20, 0xC0C1, 0xD669, 0xC5D0, 0x20, 0xB300, 0xD55C, 0x20, 0xC18D, 0xBCF4, 0xB97C,
     0x20, 0xC791, 0xC131, 0xD558, 0xC138, 0xC694, 0x2E]"

text \<open>Line 41: the crazy directive (an article that makes no sense).\<close>

definition MODE_CRAZY :: string where
  "MODE_CRAZY =
     utf8 [0xB17C, 0xB9AC, 0xC801, 0xC73C, 0xB85C, 0x20, 0xB9D0, 0xC774, 0x20, 0xC548, 0x20,
     0xB418, 0xAC70, 0xB098, 0x2C, 0x20, 0xAE30, 0xC790, 0xAC00, 0x20, 0xBBF8, 0xCCD0, 0xBC84,
     0xB9B0, 0x20, 0xB4EF, 0xD55C, 0x20, 0xAE30, 0xAD34, 0xD55C, 0x20, 0xB0B4, 0xC6A9, 0xC758,
     0x20, 0xAE30, 0xC0AC, 0xB97C, 0x20, 0xC791, 0xC131, 0xD558, 0xC138, 0xC694, 0x2E]"

text \<open>Line 42: the fake-news directive.\<close>

definition MODE_FAKE :: string where
  "MODE_FAKE =
     utf8 [0xC0AC, 0xC2E4, 0xC774, 0x20, 0xC544, 0xB2CC, 0x20, 0xB0B4, 0xC6A9, 0xC744, 0x20,
     0xC0AC, 0xC2E4, 0xC778, 0x20, 0xAC83, 0xCC98, 0xB7FC, 0x20, 0xAD50, 0xBB18, 0xD558, 0xAC8C,
     0x20, 0xAFB8, 0xBBFC, 0x20, 0xC120, 0xB3D9, 0xC131, 0x20, 0xAC00, 0xC9DC, 0x20, 0xB274,
     0xC2A4, 0xB97C, 0x20, 0xC791, 0xC131, 0xD558, 0xC138, 0xC694, 0x2E]"

text \<open>Lines 44-53, literal text no. 0 of the prompt template.\<close>

definition RANDOM_PROMPT_0 :: string where
  "RANDOM_PROMPT_0 =
     utf8 [0xA, 0x20, 0x20, 0x20, 0x20, 0xB2F9, 0xC2E0, 0xC740, 0x20, 0xCC3D, 0xC758, 0xC801,
     0xC778, 0x20, 0xAE30, 0xC790, 0xC785, 0xB2C8, 0xB2E4, 0x2E, 0x20, 0xB2E4, 0xC74C, 0x20,
     0xC870, 0xAC74, 0xC5D0, 0x20, 0xB9DE, 0xCDB0, 0x20, 0x2A, 0x2A, 0xB79C, 0xB364, 0xD55C,
     0x20, 0xB274, 0xC2A4, 0x20, 0xAE30, 0xC0AC, 0x2A, 0x2A, 0xB97C, 0x20, 0xD558, 0xB098, 0x20,
     0xC791, 0xC131, 0xD574, 0xC8FC, 0xC138, 0xC694, 0x2E, 0xA, 0x20, 0x20, 0x20, 0x20, 0xA] @
     ''    1. **'' @ utf8 [0xC2DC, 0xB300, 0xC801, 0x20, 0xBC30, 0xACBD, 0x2A, 0x2A, 0x3A, 0x20]"

text \<open>Lines 44-53, literal text no. 1 of the prompt template.\<close>

definition RANDOM_PROMPT_1 :: string where
  "RANDOM_PROMPT_1 =
     utf8 [0xA] @ ''    2. **'' @ utf8 [0xC791, 0xC131, 0x20, 0xD1A4, 0xC564, 0xB9E4, 0xB108,
     0x2A, 0x2A, 0x3A, 0x20]"

text \<open>Lines 44-53, literal text no. 2 of the prompt template.\<close>

definition RANDOM_PROMPT_2 :: string where
  "RANDOM_PROMPT_2 =
     utf8 [0xA] @ ''    3. **'' @ utf8 [0xD544, 0xC218, 0x20, 0xC870, 0xAC74, 0x2A, 0x2A, 0x3A,
     0x20, 0xAE30, 0xC0AC, 0xC758, 0x20, 0x2A, 0x2A, 0xC81C, 0xBAA9] @ ''(Title)'' @
     utf8 [0xACFC, 0x20, 0xBCF8, 0xBB38] @ ''(Content)'' @ utf8 [0xC758, 0x20, 0xB0B4, 0xC6A9,
     0xC740, 0x20, 0xBC18, 0xB4DC, 0xC2DC, 0x20, 0xC77C, 0xCE58, 0x2A, 0x2A, 0xD574, 0xC57C,
     0x20, 0xD558, 0xBA70, 0x2C, 0x20, 0xC721, 0xD558, 0xC6D0, 0xCE59, 0xC5D0, 0x20, 0xB530,
     0xB77C, 0x20, 0xADF8, 0xB7F4, 0xB4EF, 0xD558, 0xAC8C, 0x20, 0xC791, 0xC131, 0xD574, 0xC57C,
     0x20, 0xD569, 0xB2C8, 0xB2E4, 0x2E, 0xA] @ ''    4. **'' @ utf8 [0xCE74, 0xD14C, 0xACE0,
     0xB9AC, 0x2A, 0x2A, 0x3A, 0x20, 0xC815, 0xCE58, 0x2C, 0x20, 0xACBD, 0xC81C, 0x2C, 0x20,
     0xC0AC, 0xD68C, 0x2C, 0x20, 0xC5F0, 0xC608, 0x2C, 0x20, 0x49, 0x54, 0x2F, 0xACFC, 0xD559,
     0x2C, 0x20, 0xC2A4, 0xD3EC, 0xCE20, 0x2C, 0x20, 0xC624, 0xD53C, 0xB2C8, 0xC5B8, 0x20,
     0xC911, 0x20, 0xD558, 0xB098, 0xB97C, 0x20, 0xB79C, 0xB364, 0xD558, 0xAC8C, 0x20, 0xC120,
     0xD0DD, 0xD558, 0xC138, 0xC694, 0x2E, 0xA, 0xA, 0x20, 0x20, 0x20, 0x20, 0xACB0, 0xACFC,
     0xB294, 0x20, 0xBC18, 0xB4DC, 0xC2DC, 0x20, 0xB2E4, 0xC74C] @ '' JSON '' @ utf8 [0xC2A4,
     0xD0A4, 0xB9C8, 0xB97C, 0x20, 0xB530, 0xB974, 0xC138, 0xC694, 0x2E, 0xA, 0x20, 0x20]"

text \<open>Line 92: the failure title (article generation failed).\<close>

definition FAIL_TITLE :: string where
  "FAIL_TITLE =
     utf8 [0xAE30, 0xC0AC, 0x20, 0xC0DD, 0xC131, 0x20, 0xC2E4, 0xD328]"

text \<open>Line 93: the failure content (check the state of the AI connection).\<close>

definition FAIL_CONTENT :: string where
  "FAIL_CONTENT =
     utf8 [0x41, 0x49, 0x20, 0xC5F0, 0xACB0, 0x20, 0xC0C1, 0xD0DC, 0xB97C, 0x20, 0xD655, 0xC778,
     0xD574, 0xC8FC, 0xC138, 0xC694, 0x2E]"

text \<open>Lines 39-42: the mode directive, the first flag that is set wins.\<close>

definition modeInstruction :: "Article \<Rightarrow> string" where
  "modeInstruction currentArticle =
     (if isEmergencyMode currentArticle then MODE_EMERGENCY
      else if isCrazyMode currentArticle then MODE_CRAZY
      else if isFakeNews currentArticle then MODE_FAKE
      else MODE_DEFAULT)"

text \<open>Lines 44-53.\<close>

definition generateRandomArticle_prompt :: "env \<Rightarrow> Article \<Rightarrow> string" where
  "generateRandomArticle_prompt env currentArticle =
     RANDOM_PROMPT_0 @ getEraContext env currentArticle @
     RANDOM_PROMPT_1 @ modeInstruction currentArticle @
     RANDOM_PROMPT_2"

text \<open>Lines 61-69.\<close>

definition generateRandomArticle_schema :: schema where
  "generateRandomArticle_schema =
     OBJECT [(''title'', STRING), (''content'', STRING), (''category'', STRING)]
       [''title'', ''content'', ''category'']"

text \<open>Lines 56-71: the request.\<close>

definition generateRandomArticle_request :: "env \<Rightarrow> Article \<Rightarrow> request" where
  "generateRandomArticle_request env currentArticle =
     \<lparr>model = ''gemini-3-flash-preview'',
      contents = generateRandomArticle_prompt env currentArticle,
      config = \<lparr>systemInstruction = None,
                responseMimeType = ''application/json'',
                responseSchema = generateRandomArticle_schema\<rparr>\<rparr>"

text \<open>
  Line 78: \<open>Object.values(ArticleCategory).includes(catStr)\<close>; only a string can equal a
  value of a string enum.
\<close>

definition isCategory :: "env \<Rightarrow> json option \<Rightarrow> bool" where
  "isCategory env catStr =
     (case catStr of
        Some (JString s) \<Rightarrow> s \<in> set (ArticleCategory_values env)
      | _ \<Rightarrow> False)"

text \<open>
  Lines 73-88: what the \<open>try\<close> block does with the response.  The text is used when it is
  truthy, that is present and not empty.
\<close>

definition generateRandomArticle_result :: "env \<Rightarrow> GenerateContentResponse \<Rightarrow> exn + js_object" where
  "generateRandomArticle_result env response =
     (case response_text response of
        None \<Rightarrow> Inl (Error ''No text generated'')
      | Some txt \<Rightarrow>
          if txt = [] then Inl (Error ''No text generated'')
          else
            (case JSON_parse env txt of
               None \<Rightarrow> Inl SyntaxError
             | Some data \<Rightarrow>
                 (case get_prop data ''category'' of
                    Inl e \<Rightarrow> Inl e
                  | Inr catStr \<Rightarrow>
                      (let category =
                             (if isCategory env catStr then catStr
                              else Some (JString (ArticleCategory_SOCIETY env)))
                       in case get_prop data ''title'' of
                            Inl e \<Rightarrow> Inl e
                          | Inr t \<Rightarrow>
                              (case get_prop data ''content'' of
                                 Inl e \<Rightarrow> Inl e
                               | Inr c \<Rightarrow>
                                   Inr [(''title'', t), (''content'', c),
                                        (''category'', category)])))))"

text \<open>Lines 91-95: the object the \<open>catch\<close> block returns.\<close>

definition generateRandomArticle_fallback :: "env \<Rightarrow> js_object" where
  "generateRandomArticle_fallback env =
     [(''title'', Some (JString FAIL_TITLE)),
      (''content'', Some (JString FAIL_CONTENT)),
      (''category'', Some (JString (ArticleCategory_SOCIETY env)))]"

text \<open>
  The function: the promise it returns settles to \<open>Inr\<close> the result or \<open>Inl\<close> what escapes
  the function, together with the world after the call.
\<close>

definition generateRandomArticle ::
  "env \<Rightarrow> 's generateContent \<Rightarrow> Article \<Rightarrow> 's world \<Rightarrow> (exn + js_object) \<times> 's world" where
  "generateRandomArticle env generateContent currentArticle w =
     (case retryRequest (generateContent (generateRandomArticle_request env currentArticle))
             3 2000 w of
        (Inl error, w') \<Rightarrow> (Inr (generateRandomArticle_fallback env), w')
      | (Inr response, w') \<Rightarrow>
          (case generateRandomArticle_result env response of
             Inl e \<Rightarrow> (Inr (generateRandomArticle_fallback env), w')
           | Inr result \<Rightarrow> (Inr result, w')))"

section \<open>\<open>analyzeArticle\<close> (lines 99-377)\<close>

text \<open>Lines 109-116, the detailed pre-1990 directive: literal text no. 0.\<close>

definition FULL_PRE1990_0 :: string where
  "FULL_PRE1990_0 =
     utf8 [0xA] @ ''        **['' @ utf8 [0xC2DC, 0xB300, 0x20, 0xC124, 0xC815, 0x3A, 0x20]"

text \<open>Lines 109-116, the detailed pre-1990 directive: literal text no. 1.\<close>

definition FULL_PRE1990_1 :: string where
  "FULL_PRE1990_1 =
     utf8 [0xB144, 0x5D, 0x2A, 0x2A, 0xA] @ ''        - **'' @ utf8 [0xC778, 0xD130, 0xB137,
     0xC774, 0x20, 0xC5C6, 0xAC70, 0xB098, 0x20, 0xB9E4, 0xC6B0, 0x20, 0xC81C, 0xD55C, 0xC801,
     0xC785, 0xB2C8, 0xB2E4, 0x2E, 0x2A, 0x2A, 0xA] @ ''        - '' @ utf8 [0x27, 0x53, 0x4E,
     0x53, 0x27, 0xB098, 0x20, 0x27, 0xC628, 0xB77C, 0xC778, 0x20, 0xB313, 0xAE00, 0x27, 0x20,
     0xB300, 0xC2E0, 0x20, 0x2A, 0x2A, 0x27, 0xC2E0, 0xBB38, 0x20, 0xB3C5, 0xC790, 0x20, 0xD22C,
     0xACE0, 0x27, 0x2C, 0x20, 0x27, 0xB77C, 0xB514, 0xC624, 0x20, 0xC0AC, 0xC5F0, 0x27, 0x2C,
     0x20, 0x27, 0xB2E4, 0xBC29, 0xC5D0, 0xC11C, 0xC758, 0x20, 0xB300, 0xD654, 0x27, 0x2C, 0x20,
     0x27, 0xB300, 0xC790, 0xBCF4, 0x27, 0x2A, 0x2A, 0x20, 0xD615, 0xC2DD, 0xC744, 0x20, 0x27] @
     ''comments'' @ utf8 [0x27, 0x20, 0xBC30, 0xC5F4, 0xC5D0, 0x20, 0xB2F4, 0xC544, 0xC8FC,
     0xC138, 0xC694, 0x2E, 0xA] @ ''        - '' @ utf8 [0xB9D0, 0xD22C, 0xB294, 0x20]"

text \<open>Lines 109-116, the detailed pre-1990 directive: literal text no. 2.\<close>

definition FULL_PRE1990_2 :: string where
  "FULL_PRE1990_2 =
     utf8 [0xB144, 0xB3C4, 0xC758, 0x20, 0xC2DC, 0xB300, 0xC0C1, 0xC744, 0x20, 0xBC18, 0xC601,
     0xD55C, 0x20, 0xACE0, 0xD48D, 0xC2A4, 0xB7FD, 0xAC70, 0xB098, 0x20, 0xD22C, 0xBC15, 0xD55C,
     0x20, 0xB9D0, 0xD22C, 0xB97C, 0x20, 0xC0AC, 0xC6A9, 0xD558, 0xC138, 0xC694, 0x2E, 0x20,
     0x28, 0xC608, 0x3A, 0x20, 0x22, 0x7E, 0xC74D, 0xB2C8, 0xB2E4, 0x22, 0x2C, 0x20, 0x22, 0x7E,
     0xD558, 0xC624, 0x22, 0x29, 0xA] @ ''        - '' @ utf8 [0xD50C, 0xB7AB, 0xD3FC] @
     ''(platform) '' @ utf8 [0xD544, 0xB4DC, 0x20, 0xC608, 0xC2DC, 0x3A, 0x20, 0x27, 0xC870,
     0xC120, 0xC77C, 0xBCF4, 0x20, 0xB3C5, 0xC790, 0xD22C, 0xACE0, 0x27, 0x2C, 0x20, 0x27,
     0xB77C, 0xB514, 0xC624, 0x20, 0xC5FD, 0xC11C, 0x27, 0x2C, 0x20, 0x27, 0xC11C, 0xC6B8, 0x20,
     0xB2E4, 0xBC29, 0x27, 0x2C, 0x20, 0x27, 0xB300, 0xD559, 0xAC00, 0x20, 0xB300, 0xC790,
     0xBCF4, 0x27, 0x2E, 0xA] @ ''        - **'' @ utf8 [0xD0C0, 0x20, 0xC5B8, 0xB860, 0xC0AC,
     0x20, 0xBCF4, 0xB3C4, 0x2A, 0x2A, 0x3A, 0x20, 0xB2F9, 0xC2DC, 0x20, 0xC874, 0xC7AC, 0xD588,
     0xB358, 0x20, 0xC2E0, 0xBB38, 0xC0AC, 0x2F, 0xBC29, 0xC1A1, 0xC0AC, 0x28, 0xB3D9, 0xC544,
     0xC77C, 0xBCF4, 0x2C, 0x20, 0xACBD, 0xD5A5, 0xC2E0, 0xBB38] @ '', KBS, MBC '' @
     utf8 [0xB4F1, 0x29, 0xC758, 0x20, 0xC9C4, 0xC9C0, 0xD55C, 0x20, 0xD5E4, 0xB4DC, 0xB77C, 0xC778,
     0x20, 0xC2A4, 0xD0C0, 0xC77C, 0x2E, 0xA] @ ''      ''"

text \<open>Lines 118-124, the detailed 1990s directive: literal text no. 0.\<close>

definition FULL_1990S_0 :: string where
  "FULL_1990S_0 =
     utf8 [0xA] @ ''        **['' @ utf8 [0xC2DC, 0xB300, 0x20, 0xC124, 0xC815, 0x3A, 0x20]"

text \<open>Lines 118-124, the detailed 1990s directive: literal text no. 1.\<close>

definition FULL_1990S_1 :: string where
  "FULL_1990S_1 =
     utf8 [0xB144, 0x5D, 0x2A, 0x2A, 0xA] @ ''        - **PC'' @ utf8 [0xD1B5, 0xC2E0, 0x20,
     0xC2DC, 0xB300, 0xC785, 0xB2C8, 0xB2E4, 0x2E, 0x2A, 0x2A, 0x20, 0x28, 0xD558, 0xC774,
     0xD154, 0x2C, 0x20, 0xCC9C, 0xB9AC, 0xC548, 0x2C, 0x20, 0xB098, 0xC6B0, 0xB204, 0xB9AC,
     0x29, 0xA] @ ''        - '' @ utf8 [0xD30C, 0xB780, 0x20, 0xD654, 0xBA74, 0xC758, 0x20,
     0xCC44, 0xD305, 0xBC29, 0x20, 0xAC10, 0xC131, 0x2C, 0x20, 0x22, 0x7E, 0xC148, 0x22, 0x2C,
     0x20, 0x22, 0x7E, 0xC784, 0x22, 0x2C, 0x20, 0x22, 0xBC29, 0xAC00, 0xBC29, 0xAC00, 0x22,
     0x20, 0xB4F1, 0xC758, 0x20, 0xCD08, 0xAE30, 0x20, 0xD1B5, 0xC2E0, 0x20, 0xC5B8, 0xC5B4,
     0xB97C, 0x20, 0xC801, 0xADF9, 0x20, 0xBC18, 0xC601, 0xD558, 0xC138, 0xC694, 0x2E, 0xA] @
     ''        - '' @ utf8 [0xD50C, 0xB7AB, 0xD3FC] @ ''(platform) '' @ utf8 [0xD544, 0xB4DC,
     0x20, 0xC608, 0xC2DC, 0x3A, 0x20, 0x27, 0xD558, 0xC774, 0xD154, 0x20, 0xAD11, 0xC7A5, 0x27,
     0x2C, 0x20, 0x27, 0xCC9C, 0xB9AC, 0xC548, 0x20, 0xAC8C, 0xC2DC, 0xD310, 0x27, 0x2C, 0x20,
     0x27, 0xB098, 0xC6B0, 0xB204, 0xB9AC, 0x20, 0xC720, 0xBA38, 0xB780, 0x27, 0x2C, 0x20, 0x27,
     0x50, 0x43, 0xBC29, 0x27, 0x2E, 0xA] @ ''        - **'' @ utf8 [0xD0C0, 0x20, 0xC5B8,
     0xB860, 0xC0AC, 0x20, 0xBCF4, 0xB3C4] @ ''**: 90'' @ utf8 [0xB144, 0xB300, 0x20, 0xC2E0,
     0xBB38, 0x2F, 0xBC29, 0xC1A1, 0x20, 0xC2A4, 0xD0C0, 0xC77C, 0x20, 0x2B, 0x20, 0xC2A4,
     0xD3EC, 0xCE20, 0xC2E0, 0xBB38, 0x28, 0xC2A4, 0xD3EC, 0xCE20, 0xC11C, 0xC6B8, 0x20, 0xB4F1,
     0x29, 0xC758, 0x20, 0xC790, 0xADF9, 0xC801, 0xC778, 0x20, 0xD5E4, 0xB4DC, 0xB77C, 0xC778,
     0x2E, 0xA] @ ''      ''"

text \<open>Lines 126-133, the detailed 2000s directive: literal text no. 0.\<close>

definition FULL_2000S_0 :: string where
  "FULL_2000S_0 =
     utf8 [0xA] @ ''        **['' @ utf8 [0xC2DC, 0xB300, 0x20, 0xC124, 0xC815, 0x3A, 0x20]"

text \<open>Lines 126-133, the detailed 2000s directive: literal text no. 1.\<close>

definition FULL_2000S_1 :: string where
  "FULL_2000S_1 =
     utf8 [0xB144, 0x5D, 0x2A, 0x2A, 0xA] @ ''        - **'' @ utf8 [0xC2F8, 0xC774, 0xC6D4,
     0xB4DC, 0x2C, 0x20, 0xBC84, 0xB514, 0xBC84, 0xB514, 0x2C, 0x20, 0xB2E4, 0xC74C, 0x20,
     0xCE74, 0xD398, 0x20, 0xC804, 0xC131, 0xAE30, 0xC785, 0xB2C8, 0xB2E4, 0x2E, 0x2A, 0x2A,
     0xA] @ ''        - '' @ utf8 [0x22, 0xD37C, 0xAC00, 0xC694, 0x7E, 0x2661, 0x22, 0x2C, 0x20,
     0x22, 0xC77C, 0xCD0C, 0xD3C9, 0x22, 0x2C, 0x20, 0xC624, 0xAE00, 0xAC70, 0xB9AC, 0xB294,
     0x20, 0xAC10, 0xC131, 0x20, 0xAE00] @ '', 2000'' @ utf8 [0xB144, 0xB300, 0x20, 0xCD08,
     0xBC18, 0x20, 0xC774, 0xBAA8, 0xD2F0, 0xCF58] @ ''((-_-), OTL)'' @ utf8 [0xC744, 0x20,
     0xC0AC, 0xC6A9, 0xD558, 0xC138, 0xC694, 0x2E, 0xA] @ ''        - '' @ utf8 [0xC2A4, 0xB9C8,
     0xD2B8, 0xD3F0, 0xC740, 0x20, 0xC544, 0xC9C1, 0x20, 0xB300, 0xC911, 0xD654, 0xB418, 0xC9C0,
     0x20, 0xC54A, 0xC558, 0xC2B5, 0xB2C8, 0xB2E4, 0x2E, 0xA] @ ''        - '' @ utf8 [0xD50C,
     0xB7AB, 0xD3FC] @ ''(platform) '' @ utf8 [0xD544, 0xB4DC, 0x20, 0xC608, 0xC2DC, 0x3A, 0x20,
     0x27, 0xC2F8, 0xC774, 0xC6D4, 0xB4DC, 0x20, 0xBBF8, 0xB2C8, 0xD648, 0xD53C, 0x27, 0x2C,
     0x20, 0x27, 0xB2E4, 0xC74C, 0x20, 0xCE74, 0xD398, 0x27, 0x2C, 0x20, 0x27, 0xB124, 0xC774,
     0xBC84, 0x20, 0xBD90, 0x27, 0x2C, 0x20, 0x27, 0xBC84, 0xB514, 0xBC84, 0xB514, 0x20, 0xC0C1,
     0xD0DC, 0xBA54, 0xC2DC, 0xC9C0, 0x27, 0x2E, 0xA] @ ''        - **'' @ utf8 [0xD0C0, 0x20,
     0xC5B8, 0xB860, 0xC0AC, 0x20, 0xBCF4, 0xB3C4, 0x2A, 0x2A, 0x3A, 0x20, 0xC778, 0xD130,
     0xB137, 0x20, 0xB274, 0xC2A4, 0x20, 0xD0DC, 0xB3D9, 0xAE30, 0x2E, 0x20, 0x27, 0xB534,
     0xC9C0, 0xC77C, 0xBCF4, 0x27, 0x2C, 0x20, 0x27, 0xC624, 0xB9C8, 0xC774, 0xB274, 0xC2A4,
     0x27, 0x20, 0xB4F1, 0x20, 0xB300, 0xC548, 0x20, 0xC5B8, 0xB860, 0xC758, 0x20, 0xB4F1,
     0xC7A5, 0x20, 0xBC18, 0xC601, 0x2E, 0xA] @ ''      ''"

text \<open>Lines 135-141, the detailed future directive: literal text no. 0.\<close>

definition FULL_FUTURE_0 :: string where
  "FULL_FUTURE_0 =
     utf8 [0xA] @ ''        **['' @ utf8 [0xC2DC, 0xB300, 0x20, 0xC124, 0xC815, 0x3A, 0x20]"

text \<open>Lines 135-141, the detailed future directive: literal text no. 1.\<close>

definition FULL_FUTURE_1 :: string where
  "FULL_FUTURE_1 =
     utf8 [0xB144, 0x20, 0x28, 0xBBF8, 0xB798, 0x29, 0x5D, 0x2A, 0x2A, 0xA] @ ''        - **'' @
     utf8 [0xBBF8, 0xB798, 0x20, 0xAE30, 0xC220, 0x20, 0xC2DC, 0xB300, 0xC785, 0xB2C8, 0xB2E4,
     0x2E, 0x2A, 0x2A, 0xA] @ ''        - '' @ utf8 [0xD640, 0xB85C, 0xADF8, 0xB7A8, 0x2C, 0x20,
     0xB274, 0xB7F4, 0x20, 0xB9C1, 0xD06C, 0x2C, 0x20, 0xD654, 0xC131, 0x20, 0xAC70, 0xC8FC,
     0xBBFC, 0x20, 0xB4F1, 0x20, 0xBBF8, 0xB798, 0xC801, 0x20, 0xC694, 0xC18C, 0xB97C, 0x20,
     0xBC18, 0xC601, 0xD558, 0xC138, 0xC694, 0x2E, 0xA] @ ''        - '' @ utf8 [0xD50C, 0xB7AB,
     0xD3FC] @ ''(platform) '' @ utf8 [0xD544, 0xB4DC, 0x20, 0xC608, 0xC2DC, 0x3A, 0x20, 0x27,
     0xB274, 0xB7F4, 0xB137, 0x20, 0xB9C1, 0xD06C, 0x27, 0x2C, 0x20, 0x27, 0xD654, 0xC131, 0x20,
     0xC2DD, 0xBBFC, 0xC9C0, 0x20, 0xAC8C, 0xC2DC, 0xD310, 0x27, 0x2C, 0x20, 0x27, 0x41, 0x49,
     0x20, 0xD1B5, 0xD569, 0x20, 0xB124, 0xD2B8, 0xC6CC, 0xD06C, 0x27, 0x2C, 0x20, 0x27, 0xAC00,
     0xC0C1, 0xD604, 0xC2E4, 0x20, 0xB85C, 0xBE44, 0x27, 0x2E, 0xA] @ ''        - **'' @
     utf8 [0xD0C0, 0x20, 0xC5B8, 0xB860, 0xC0AC, 0x20, 0xBCF4, 0xB3C4, 0x2A, 0x2A, 0x3A, 0x20, 0x27,
     0x41, 0x49, 0x20, 0xB274, 0xC2A4, 0x20, 0xBD07, 0x27, 0x2C, 0x20, 0x27, 0xD654, 0xC131,
     0x20, 0xC77C, 0xBCF4, 0x27, 0x2C, 0x20, 0x27, 0xAC24, 0xB7ED, 0xC2DC, 0x20, 0xB124, 0xD2B8,
     0xC6CC, 0xD06C, 0x20, 0xB274, 0xC2A4, 0x27, 0x20, 0xB4F1, 0x20, 0xBBF8, 0xB798, 0xC9C0,
     0xD5A5, 0xC801, 0x20, 0xB9E4, 0xCCB4, 0xBA85, 0x2E, 0xA] @ ''      ''"

text \<open>Lines 143-147, the detailed reflect-era directive: literal text no. 0.\<close>

definition FULL_REFLECT_0 :: string where
  "FULL_REFLECT_0 =
     utf8 [0xA] @ ''        **['' @ utf8 [0xC2DC, 0xB300, 0x20, 0xC124, 0xC815, 0x3A, 0x20]"

text \<open>Lines 143-147, the detailed reflect-era directive: literal text no. 1.\<close>

definition FULL_REFLECT_1 :: string where
  "FULL_REFLECT_1 =
     utf8 [0xB144, 0x5D, 0x2A, 0x2A, 0xA] @ ''        - '' @ utf8 [0xD574, 0xB2F9, 0x20, 0xC5F0,
     0xB3C4, 0xC758, 0x20, 0xC2E4, 0xC81C, 0x20, 0xAE30, 0xC220, 0x20, 0xC218, 0xC900, 0xACFC,
     0x20, 0xC720, 0xD589, 0xD558, 0xB294, 0x20, 0x53, 0x4E, 0x53, 0x20, 0xD50C, 0xB7AB, 0xD3FC,
     0xC744, 0x20, 0xBC18, 0xC601, 0xD558, 0xB418, 0x2C, 0x20, 0xC544, 0xB798, 0xC758, 0x20,
     0xBD84, 0xB958, 0x20, 0xAE30, 0xC900, 0x28, 0x53, 0x4E, 0x53, 0x20, 0xD1B5, 0xD569, 0x2C,
     0x20, 0xCEE4, 0xBBA4, 0xB2C8, 0xD2F0, 0x20, 0xC138, 0xBD84, 0xD654, 0x29, 0xC744, 0x20,
     0xB530, 0xB974, 0xC138, 0xC694, 0x2E, 0xA] @ ''        - **'' @ utf8 [0xD0C0, 0x20, 0xC5B8,
     0xB860, 0xC0AC, 0x20, 0xBCF4, 0xB3C4, 0x2A, 0x2A, 0x3A, 0x20, 0xD604, 0xB300, 0xC758, 0x20,
     0xB2E4, 0xC591, 0xD55C, 0x20, 0xB9E4, 0xCCB4, 0x28, 0xC885, 0xD3B8, 0x2C, 0x20, 0xC778,
     0xD130, 0xB137, 0x20, 0xC2E0, 0xBB38, 0x2C, 0x20, 0xC720, 0xD29C, 0xBE0C, 0x20, 0xB809,
     0xCE74, 0x20, 0xB4F1, 0x29, 0xB97C, 0x20, 0xBC18, 0xC601, 0xD558, 0xC138, 0xC694, 0x2E,
     0xA] @ ''      ''"

text \<open>Lines 150-153: the detailed directive when time-machine mode is off.\<close>

definition FULL_MODERN :: string where
  "FULL_MODERN =
     utf8 [0xA] @ ''        **['' @ utf8 [0xC2DC, 0xB300, 0x20, 0xC124, 0xC815, 0x3A, 0x20,
     0xD604, 0xC7AC, 0x5D, 0x2A, 0x2A, 0xA] @ ''        - '' @ utf8 [0xD0C0, 0x20, 0xC5B8,
     0xB860, 0xC0AC, 0x20, 0xBCF4, 0xB3C4, 0x20, 0xC0DD, 0xC131, 0x20, 0xC2DC, 0x3A, 0x20,
     0xBA54, 0xC774, 0xC800, 0x20, 0xC5B8, 0xB860, 0xC0AC, 0x2C, 0x20, 0xC778, 0xD130, 0xB137,
     0x20, 0xC5B8, 0xB860, 0xC0AC, 0x2C, 0x20, 0xACBD, 0xC81C, 0xC9C0, 0x2C, 0x20, 0xB610,
     0xB294, 0x20, 0xC720, 0xD29C, 0xBE0C, 0x20, 0x27, 0xC0AC, 0xC774, 0xBC84, 0x20, 0xB809,
     0xCE74, 0x27, 0x20, 0xC2A4, 0xD0C0, 0xC77C, 0xC758, 0x20, 0xC790, 0xADF9, 0xC801, 0xC778,
     0x20, 0xC378, 0xB124, 0xC77C, 0x20, 0xC81C, 0xBAA9, 0x20, 0xB4F1, 0xC744, 0x20, 0xB2E4,
     0xC591, 0xD558, 0xAC8C, 0x20, 0xD3EC, 0xD568, 0xD558, 0xC138, 0xC694, 0x2E, 0xA, 0x20,
     0x20, 0x20, 0x20]"

text \<open>Lines 160-166: the emergency block.\<close>

definition BLOCK_EMERGENCY :: string where
  "BLOCK_EMERGENCY =
     utf8 [0xA] @ ''      **['' @ utf8 [0xBAA8, 0xB4DC, 0x3A, 0x20, 0xAD6D, 0xAC00, 0x20,
     0xBE44, 0xC0C1, 0xC0AC, 0xD0DC, 0x2F, 0xC5B8, 0xB860, 0x20, 0xB3C5, 0xC810, 0x5D, 0x2A,
     0x2A, 0xA] @ ''      - '' @ utf8 [0xAD6D, 0xBBFC, 0xB4E4, 0xC740, 0x20, 0xC815, 0xBCF4,
     0xB97C, 0x20, 0xC5BB, 0xC744, 0x20, 0xC218, 0x20, 0xC788, 0xB294, 0x20, 0xC720, 0xC77C,
     0xD55C, 0x20, 0xCC3D, 0xAD6C, 0xC778, 0x20, 0xC774, 0x20, 0xAE30, 0xC0AC, 0xC5D0, 0x20,
     0xD544, 0xC0AC, 0xC801, 0xC785, 0xB2C8, 0xB2E4, 0x2E, 0xA] @ ''      - '' @ utf8 [0x22,
     0xB2E4, 0xB978, 0x20, 0xB274, 0xC2A4, 0xB294, 0x20, 0xB2E4, 0x20, 0xB04A, 0xACBC, 0xC5B4,
     0x22, 0x2C, 0x20, 0x22, 0xC0B4, 0xB824, 0xC8FC, 0xC138, 0xC694, 0x22, 0x20, 0xB4F1, 0xC758,
     0x20, 0xC808, 0xBC15, 0xD55C, 0x20, 0xBC18, 0xC751, 0xC774, 0x20, 0xC8FC, 0xB97C, 0x20,
     0xC774, 0xB8F9, 0xB2C8, 0xB2E4, 0x2E, 0xA] @ ''      - **'' @ utf8 [0xD0C0, 0x20, 0xC5B8,
     0xB860, 0xC0AC, 0x20, 0xBCF4, 0xB3C4, 0x2A, 0x2A, 0x3A, 0x20, 0xBE44, 0xC5B4, 0xC788,
     0xAC70, 0xB098, 0x20, 0x27, 0xC2E0, 0xD638, 0x20, 0xC5C6, 0xC74C, 0x27, 0x2C, 0x20, 0x27,
     0xC1A1, 0xCD9C, 0x20, 0xC911, 0xB2E8, 0x27, 0x20, 0xB4F1, 0xC73C, 0xB85C, 0x20, 0xD45C,
     0xAE30, 0x2E, 0xA] @ ''      - **'' @ utf8 [0xAE08, 0xC735, 0x20, 0xC2DC, 0xC7A5, 0x2A,
     0x2A, 0x3A, 0x20, 0xB300, 0xD3ED, 0xB77D, 0x2C, 0x20, 0xAC70, 0xB798, 0x20, 0xC815, 0xC9C0,
     0x2C, 0x20, 0xB610, 0xB294, 0x20, 0xD654, 0xD3D0, 0x20, 0xAC00, 0xCE58, 0x20, 0xAE09,
     0xB77D, 0x28, 0xD658, 0xC728, 0x20, 0xD3ED, 0xB4F1, 0x29, 0xC744, 0x20, 0xC2DC, 0xBBAC,
     0xB808, 0xC774, 0xC158, 0xD558, 0xC138, 0xC694, 0x2E, 0xA, 0x20, 0x20, 0x20, 0x20]"

text \<open>Lines 170-174: the crazy block.\<close>

definition BLOCK_CRAZY :: string where
  "BLOCK_CRAZY =
     utf8 [0xA] @ ''      **['' @ utf8 [0xBAA8, 0xB4DC, 0x3A, 0x20, 0xBBF8, 0xCE5C, 0x20,
     0xAE30, 0xC790, 0x5D, 0x2A, 0x2A, 0xA] @ ''      - '' @ utf8 [0xB300, 0xC911, 0xC740, 0x20,
     0xAE30, 0xC790, 0xB97C, 0x20, 0x27, 0xC644, 0xC804, 0xD788, 0x20, 0xBBF8, 0xCE5C, 0x20,
     0xC0AC, 0xB78C, 0x27, 0x2C, 0x20, 0x27, 0xC815, 0xC2E0, 0x20, 0xB098, 0xAC04, 0x20, 0xC0AC,
     0xB78C, 0x27, 0xC73C, 0xB85C, 0x20, 0xCDE8, 0xAE09, 0xD569, 0xB2C8, 0xB2E4, 0x2E, 0xA] @
     ''      - **'' @ utf8 [0xAE08, 0xC735, 0x20, 0xC2DC, 0xC7A5, 0x2A, 0x2A, 0x3A, 0x20,
     0xAE30, 0xC774, 0xD55C, 0x20, 0xD14C, 0xB9C8, 0xC8FC, 0x28, 0xC608, 0x3A, 0x20, 0xC54C,
     0xB8E8, 0xBBF8, 0xB284, 0x20, 0xD638, 0xC77C, 0x2C, 0x20, 0xC815, 0xC2E0, 0xBCD1, 0xC6D0,
     0x20, 0xAD00, 0xB828, 0xC8FC, 0x29, 0xAC00, 0x20, 0xAE09, 0xB4F1, 0xB77D, 0xD558, 0xAC70,
     0xB098, 0x2C, 0x20, 0xBC08, 0x20, 0xCF54, 0xC778] @ ''(Meme Coin)'' @ utf8 [0xC774, 0x20,
     0xD3ED, 0xB4F1, 0xD558, 0xB294, 0x20, 0xB4F1, 0x20, 0xBE44, 0xC774, 0xC131, 0xC801, 0x20,
     0xD750, 0xB984, 0x2E, 0xA, 0x20, 0x20, 0x20, 0x20]"

text \<open>Lines 178-182: the fake-news block.\<close>

definition BLOCK_FAKE :: string where
  "BLOCK_FAKE =
     utf8 [0xA] @ ''      **['' @ utf8 [0xBAA8, 0xB4DC, 0x3A, 0x20, 0xAC00, 0xC9DC, 0x20,
     0xB274, 0xC2A4, 0x2F, 0xC120, 0xB3D9, 0x5D, 0x2A, 0x2A, 0xA] @ ''      - '' @ utf8 [0xD329,
     0xD2B8, 0x20, 0xC5EC, 0xBD80, 0xC640, 0x20, 0xAD00, 0xACC4, 0xC5C6, 0xC774, 0x20, 0xC120,
     0xB3D9, 0xACFC, 0x20, 0xC74C, 0xBAA8, 0xB860, 0x20, 0xD655, 0xC0B0, 0xC5D0, 0x20, 0xCD08,
     0xC810, 0xC744, 0x20, 0xB9DE, 0xCDA5, 0xB2C8, 0xB2E4, 0x2E, 0xA] @ ''      - **'' @
     utf8 [0xAE08, 0xC735, 0x20, 0xC2DC, 0xC7A5, 0x2A, 0x2A, 0x3A, 0x20, 0xD2B9, 0xC815, 0x20,
     0xC791, 0xC804, 0xC8FC, 0x20, 0xB744, 0xC6B0, 0xAE30, 0xB098, 0x20, 0xACF5, 0xD3EC, 0x20,
     0xC870, 0xC131, 0xC744, 0x20, 0xD1B5, 0xD55C, 0x20, 0xD22C, 0xB9E4, 0x20, 0xC720, 0xB3C4,
     0x2E, 0xA, 0x20, 0x20, 0x20, 0x20]"

text \<open>Lines 186-190: the default block.\<close>

definition BLOCK_NORMAL :: string where
  "BLOCK_NORMAL =
     utf8 [0xA] @ ''      **['' @ utf8 [0xC77C, 0xBC18, 0x20, 0xBAA8, 0xB4DC, 0x5D, 0x2A, 0x2A,
     0xA] @ ''      - '' @ utf8 [0xAE30, 0xC0AC, 0xC758, 0x20, 0xB17C, 0xC870, 0xC640, 0x20,
     0xD488, 0xC9C8, 0xC5D0, 0x20, 0xB530, 0xB978, 0x20, 0xD604, 0xC2E4, 0xC801, 0xC778, 0x20,
     0xBC18, 0xC751, 0xC744, 0x20, 0xBCF4, 0xC5EC, 0xC8FC, 0xC138, 0xC694, 0x2E, 0xA] @
     ''      - **'' @ utf8 [0xAE08, 0xC735, 0x20, 0xC2DC, 0xC7A5, 0x2A, 0x2A, 0x3A, 0x20,
     0xAE30, 0xC0AC, 0x20, 0xB0B4, 0xC6A9, 0xACFC, 0x20, 0xAC00, 0xC7A5, 0x20, 0xC5F0, 0xAD00,
     0xC131, 0x20, 0xB192, 0xC740, 0x20, 0xC9C0, 0xD45C, 0xAC00, 0x20, 0xD569, 0xB9AC, 0xC801,
     0xC73C, 0xB85C, 0x20, 0xC6C0, 0xC9C1, 0xC785, 0xB2C8, 0xB2E4, 0x2E, 0xA, 0x20, 0x20, 0x20,
     0x20]"

text \<open>Lines 193-196, text before the interpolated context.\<close>

definition PREVIOUS_0 :: string where
  "PREVIOUS_0 =
     utf8 [0xA] @ ''    **['' @ utf8 [0xC774, 0xC804, 0x20, 0xAE30, 0xC0AC, 0x20, 0xB9E5,
     0xB77D, 0x20, 0xC788, 0xC74C, 0x5D, 0x2A, 0x2A, 0xA, 0x20, 0x20, 0x20, 0x20, 0xC774, 0x20,
     0xAE30, 0xC0AC, 0xB294, 0x20, 0xD6C4, 0xC18D, 0x20, 0xBCF4, 0xB3C4, 0xC785, 0xB2C8, 0xB2E4,
     0x3A, 0x20]"

text \<open>Lines 193-196, text after the interpolated context.\<close>

definition PREVIOUS_1 :: string where
  "PREVIOUS_1 =
     utf8 [0xA, 0x20, 0x20]"

text \<open>Lines 198-247, literal text no. 0 of the prompt template.\<close>

definition ANALYZE_PROMPT_0 :: string where
  "ANALYZE_PROMPT_0 =
     utf8 [0xA, 0x20, 0x20, 0x20, 0x20, 0xB2F9, 0xC2E0, 0xC740, 0x20, 0x27, 0xAE30, 0xC790,
     0x20, 0xC2DC, 0xBBAC, 0xB808, 0xC774, 0xD130, 0x27, 0x20, 0xAC8C, 0xC784, 0xC758, 0x20,
     0xC5D4, 0xC9C4, 0xC785, 0xB2C8, 0xB2E4, 0x2E, 0x20, 0xA, 0x20, 0x20, 0x20, 0x20, 0xC0AC,
     0xC6A9, 0xC790, 0xAC00, 0x20, 0xC791, 0xC131, 0xD55C, 0x20, 0xAE30, 0xC0AC, 0x20, 0xB0B4,
     0xC6A9, 0xC744, 0x20, 0xBD84, 0xC11D, 0xD558, 0xC5EC, 0x20, 0xB300, 0xC911, 0xC758, 0x20,
     0xBC18, 0xC751, 0xACFC, 0x20, 0xACBD, 0xC81C, 0xC801, 0x20, 0xD30C, 0xC7A5, 0xC744, 0x20,
     0xC2DC, 0xBBAC, 0xB808, 0xC774, 0xC158, 0xD558, 0xC138, 0xC694, 0x2E, 0xA, 0x20, 0x20,
     0x20, 0x20, 0xA, 0x20, 0x20, 0x20, 0x20]"

text \<open>Lines 198-247, literal text no. 1 of the prompt template.\<close>

definition ANALYZE_PROMPT_1 :: string where
  "ANALYZE_PROMPT_1 =
     utf8 [0xA, 0x20, 0x20, 0x20, 0x20]"

text \<open>Lines 198-247, literal text no. 2 of the prompt template.\<close>

definition ANALYZE_PROMPT_2 :: string where
  "ANALYZE_PROMPT_2 =
     utf8 [0xA, 0xA, 0x20, 0x20, 0x20, 0x20, 0xAE30, 0xC0AC, 0x20, 0xC81C, 0xBAA9, 0x3A, 0x20]"

text \<open>Lines 198-247, literal text no. 3 of the prompt template.\<close>

definition ANALYZE_PROMPT_3 :: string where
  "ANALYZE_PROMPT_3 =
     utf8 [0xA, 0x20, 0x20, 0x20, 0x20, 0xCE74, 0xD14C, 0xACE0, 0xB9AC, 0x3A, 0x20]"

text \<open>Lines 198-247, literal text no. 4 of the prompt template.\<close>

definition ANALYZE_PROMPT_4 :: string where
  "ANALYZE_PROMPT_4 =
     utf8 [0xA, 0x20, 0x20, 0x20, 0x20, 0xB0B4, 0xC6A9, 0x3A, 0x20]"

text \<open>Lines 198-247, literal text no. 5 of the prompt template.\<close>

definition ANALYZE_PROMPT_5 :: string where
  "ANALYZE_PROMPT_5 =
     utf8 [0xA, 0x20, 0x20, 0x20, 0x20, 0xC791, 0xC131, 0xC790, 0x3A, 0x20]"

text \<open>Lines 198-247, literal text no. 6 of the prompt template.\<close>

definition ANALYZE_PROMPT_6 :: string where
  "ANALYZE_PROMPT_6 =
     utf8 [0xA, 0xA, 0x20, 0x20, 0x20, 0x20, 0x3C, 0xD65C, 0xC131, 0xD654, 0xB41C, 0x20, 0xBAA8,
     0xB4DC, 0x20, 0xC9C0, 0xC2DC, 0xC0AC, 0xD56D, 0x3E, 0xA, 0x20, 0x20, 0x20, 0x20]"

text \<open>Lines 198-247, literal text no. 7 of the prompt template.\<close>

definition ANALYZE_PROMPT_7 :: string where
  "ANALYZE_PROMPT_7 =
     utf8 [0xA] @ ''    </'' @ utf8 [0xD65C, 0xC131, 0xD654, 0xB41C, 0x20, 0xBAA8, 0xB4DC, 0x20,
     0xC9C0, 0xC2DC, 0xC0AC, 0xD56D, 0x3E, 0xA, 0xA, 0x20, 0x20, 0x20, 0x20, 0xC694, 0xCCAD,
     0x20, 0xC0AC, 0xD56D, 0x3A, 0xA] @ ''    1. **'' @ utf8 [0xB313, 0xAE00] @
     '' (Comments) - '' @ utf8 [0xC5C4, 0xACA9, 0xD55C, 0x20, 0xAD6C, 0xC870, 0x20, 0xC900,
     0xC218, 0x2A, 0x2A, 0x3A, 0xA] @ ''       - '' @ utf8 [0xB2E4, 0xC74C, 0x20, 0x2A, 0x2A,
     0x31, 0x30, 0xAC00, 0xC9C0, 0x20, 0xD50C, 0xB7AB, 0xD3FC, 0x2A, 0x2A, 0xC744, 0x20, 0xB300,
     0xC0C1, 0xC73C, 0xB85C, 0x20, 0x2A, 0x2A, 0xCD1D, 0x20, 0x32, 0x30, 0xAC1C, 0x20, 0x7E,
     0x20, 0x32, 0x35, 0xAC1C, 0xC758, 0x20, 0xB313, 0xAE00, 0x2A, 0x2A, 0xC744, 0x20, 0xC0DD,
     0xC131, 0xD558, 0xC138, 0xC694, 0x2E, 0xA] @ ''       - **'' @ utf8 [0xAC01, 0x20, 0xD50C,
     0xB7AB, 0xD3FC, 0xB2F9, 0x20, 0xCD5C, 0xC18C, 0x20, 0x32, 0xAC1C, 0x2A, 0x2A, 0xC758, 0x20,
     0xB313, 0xAE00, 0xC744, 0x20, 0xAE30, 0xBCF8, 0xC801, 0xC73C, 0xB85C, 0x20, 0xC0DD, 0xC131,
     0xD558, 0xACE0, 0x2C, 0x20, 0xB0A8, 0xB294, 0x20, 0x30, 0x7E, 0x35, 0xAC1C, 0xB294, 0x20,
     0xBB34, 0xC791, 0xC704, 0xB85C, 0x20, 0xBD84, 0xBC30, 0xD558, 0xC138, 0xC694, 0x2E, 0xA] @
     ''       - **'' @ utf8 [0xBAA8, 0xB4E0, 0x20, 0xB313, 0xAE00, 0xC5D0, 0xB294, 0x20, 0xBC18,
     0xB4DC, 0xC2DC, 0x20, 0x31, 0xAC1C, 0xC758, 0x20, 0xB300, 0xB313, 0xAE00] @ ''(Reply)'' @
     utf8 [0xC774, 0x20, 0xB2EC, 0xB824, 0xC57C, 0x20, 0xD569, 0xB2C8, 0xB2E4, 0x2E, 0x2A, 0x2A,
     0x20, 0x28, 0xD544, 0xC218, 0x20, 0xC870, 0xAC74, 0x29, 0xA] @ ''       '' @ utf8 [0xA] @
     ''       **['' @ utf8 [0xB300, 0xC0C1, 0x20, 0xD50C, 0xB7AB, 0xD3FC, 0x20, 0xBAA9, 0xB85D,
     0x5D, 0x2A, 0x2A, 0x3A, 0xA] @ ''       1. **'' @ utf8 [0xB124, 0xC774, 0xBC84, 0x20,
     0xB274, 0xC2A4] @ ''** (4050 '' @ utf8 [0xC138, 0xB300, 0x2C, 0x20, 0xC9C4, 0xC9C0, 0xD568,
     0x2C, 0x20, 0xC874, 0xB313, 0xB9D0, 0x2C, 0x20, 0xC815, 0xCE58, 0xC0C9, 0x20, 0xAC15,
     0xD568, 0x29, 0xA] @ ''       2. **'' @ utf8 [0xC720, 0xD29C, 0xBE0C, 0x2A, 0x2A, 0x20,
     0x28, 0xC5B4, 0xB9B0, 0x20, 0xC5F0, 0xB839, 0xCE35, 0x2C, 0x20, 0x22, 0x3139, 0x3147,
     0x314B, 0x314B, 0x22, 0x2C, 0x20, 0xC601, 0xC0C1, 0x20, 0xBCF8, 0x20, 0xB4EF, 0xD55C, 0x20,
     0xBC18, 0xC751, 0x29, 0xA] @ ''       3. **'' @ utf8 [0xC778, 0xC2A4, 0xD0C0, 0xADF8,
     0xB7A8, 0x2A, 0x2A, 0x20, 0x28, 0xAC10, 0xC131, 0xC801, 0x2C, 0x20, 0xD574, 0xC2DC, 0xD0DC,
     0xADF8, 0x20, 0x23, 0x2C, 0x20, 0x22, 0x3160, 0x3160, 0x22, 0x2C, 0x20, 0xC774, 0xBAA8,
     0xC9C0, 0x20, 0xB0A8, 0xBC1C, 0x29, 0xA] @ ''       4. **'' @ utf8 [0xD2B8, 0xC704, 0xD130]
     @ ''(X)** ('' @ utf8 [0xC9E7, 0xACE0, 0x20, 0xB0A0, 0xCE74, 0xB85C, 0xC6C0, 0x2C, 0x20,
     0xB355, 0xC9C8, 0x20, 0xB9D0, 0xD22C, 0x2C, 0x20, 0xB9AC, 0xD2B8, 0xC717, 0x20, 0xC720,
     0xB3C4, 0x29, 0xA] @ ''       5. **'' @ utf8 [0xC5D0, 0xD3A8, 0xCF54, 0xB9AC, 0xC544] @
     ''** (2030 '' @ utf8 [0xB0A8, 0xC131, 0x2C, 0x20, 0xBC18, 0xB9D0, 0x2C, 0x20, 0xCD95,
     0xAD6C, 0x2F, 0xAC8C, 0xC784, 0x20, 0xBE44, 0xC720, 0x2C, 0x20, 0xAC70, 0xCE5C, 0x20,
     0xD45C, 0xD604, 0x29, 0xA] @ ''       6. **'' @ utf8 [0xB354, 0xCFE0] @ ''** (2030 '' @
     utf8 [0xC5EC, 0xC131, 0x2C, 0x20, 0xBC18, 0xB9D0, 0x2C, 0x20, 0x22, 0x7E, 0xD568, 0x22,
     0x2C, 0x20, 0xACF5, 0xAC10, 0x20, 0xC720, 0xB3C4, 0x2C, 0x20, 0x22, 0xBBF8, 0xCE5C, 0x2E,
     0x2E, 0x2E, 0x22, 0x29, 0xA] @ ''       7. **'' @ utf8 [0xBE14, 0xB77C, 0xC778, 0xB4DC,
     0x2A, 0x2A, 0x20, 0x28, 0xC9C1, 0xC7A5, 0xC778, 0x2C, 0x20, 0xB0C9, 0xC18C, 0xC801, 0x2C,
     0x20, 0xD68C, 0xC0AC, 0x20, 0xC778, 0xC99D, 0x20, 0xBD80, 0xC2EC, 0x2C, 0x20, 0x22, 0xD615,
     0xB4E4, 0x2E, 0x2E, 0x2E, 0x22, 0x29, 0xA] @ ''       8. **'' @ utf8 [0xB514, 0xC2DC,
     0xC778, 0xC0AC, 0xC774, 0xB4DC, 0x2A, 0x2A, 0x20, 0x28, 0xCD5C, 0xB300, 0x20, 0xCEE4,
     0xBBA4, 0xB2C8, 0xD2F0, 0x2C, 0x20, 0xADF9, 0xB3C4, 0xB85C, 0x20, 0xAC70, 0xCE5C, 0x20,
     0xBC18, 0xB9D0, 0x2C, 0x20, 0xB0C9, 0xC18C, 0xC801, 0x2C, 0x20, 0xC720, 0xB3D9, 0xB2C9,
     0x29, 0xA] @ ''       9. **'' @ utf8 [0xB124, 0xC774, 0xD2B8, 0xD310, 0x2A, 0x2A, 0x20,
     0x28, 0xC5EC, 0xC131, 0x20, 0xC911, 0xC2EC, 0x2C, 0x20, 0xB4DC, 0xB77C, 0xB9C8, 0xD2F1,
     0xD55C, 0x20, 0xC0AC, 0xC5F0, 0x20, 0xB9D0, 0xD22C, 0x2C, 0x20, 0x22, 0xBCA0, 0xD50C, 0x22,
     0x20, 0xC5B8, 0xAE09, 0x2C, 0x20, 0xAC10, 0xC815, 0xC801, 0x20, 0xD638, 0xC18C, 0x29, 0xA]
     @ ''       10. **'' @ utf8 [0xCE74, 0xCE74, 0xC624, 0xD1A1, 0x20, 0xC624, 0xD508, 0xCC44,
     0xD305, 0x2A, 0x2A, 0x20, 0x28, 0xC2E4, 0xC2DC, 0xAC04, 0x20, 0xBC18, 0xC751, 0x2C, 0x20,
     0xC9E7, 0xC740, 0x20, 0xB2E8, 0xBB38, 0x20, 0xC5F0, 0xD0C0, 0x2C, 0x20, 0x22, 0x23, 0xBC29,
     0xC7A5, 0xB2D8, 0x22, 0x2C, 0x20, 0xC8FC, 0xC2DD, 0x2F, 0xCF54, 0xC778, 0xBC29, 0x20,
     0xB290, 0xB08C, 0x29, 0xA] @ ''       '' @ utf8 [0xA] @ ''       *('' @ utf8 [0xB9CC,
     0xC57D, 0x20, 0xD0C0, 0xC784, 0xBA38, 0xC2E0, 0x20, 0xBAA8, 0xB4DC, 0xB77C, 0xBA74, 0x2C,
     0x20, 0xC704, 0x20, 0x31, 0x30, 0xAC1C, 0x20, 0xD50C, 0xB7AB, 0xD3FC, 0xC744, 0x20, 0xD574,
     0xB2F9, 0x20, 0xC2DC, 0xB300, 0xC5D0, 0x20, 0xB9DE, 0xB294, 0x20, 0xB9E4, 0xCCB4, 0x2F,
     0xC7A5, 0xC18C, 0xB85C, 0x20, 0xB300, 0xCCB4, 0xD558, 0xC5EC, 0x20, 0xAC01, 0xAC01, 0x20,
     0x32, 0xAC1C, 0x20, 0xC774, 0xC0C1, 0x20, 0xC0DD, 0xC131, 0xD558, 0xC138, 0xC694, 0x2E,
     0x29, 0x2A, 0xA, 0xA] @ ''       - **'' @ utf8 [0xD398, 0xB974, 0xC18C, 0xB098, 0x20,
     0xB2E4, 0xC591, 0xD654, 0x2A, 0x2A, 0x3A, 0x20, 0xADF9, 0xB300, 0xB178, 0xD615, 0x2C, 0x20,
     0xD329, 0xD2B8, 0xCCB4, 0xD06C, 0xD615, 0x2C, 0x20, 0xB4DC, 0xB9BD, 0xD615, 0x2C, 0x20,
     0xACF5, 0xD3EC, 0xD615, 0x2C, 0x20, 0xC74C, 0xBAA8, 0xB860, 0xC790, 0x2C, 0x20, 0xC8FC,
     0xC2DD, 0xBB34, 0xC0C8, 0x2C, 0x20, 0xBB34, 0xC9C0, 0xC131, 0x20, 0xC639, 0xD638, 0x20,
     0xB4F1, 0x2E, 0xA] @ ''       - '' @ utf8 [0xC88B, 0xC544, 0xC694, 0x20, 0xC218, 0x3A,
     0x20, 0xBCA0, 0xC2A4, 0xD2B8, 0x20, 0xB313, 0xAE00, 0x28, 0xC218, 0xCC9C, 0x20, 0xAC1C,
     0x29, 0xACFC, 0x20, 0xBB34, 0xAD00, 0xC2EC, 0x20, 0xB313, 0xAE00, 0x28, 0x30, 0x7E, 0x31,
     0x30, 0xAC1C, 0x29, 0xC744, 0x20, 0xD604, 0xC2E4, 0xC801, 0xC73C, 0xB85C, 0x20, 0xBD84,
     0xD3EC, 0xC2DC, 0xD0A4, 0xC138, 0xC694, 0x2E, 0xA, 0xA] @ ''    2. **'' @ utf8 [0xAE08,
     0xC735, 0x20, 0xBC0F, 0x20, 0xC0AC, 0xD68C, 0x20, 0xC9C0, 0xD45C, 0x2A, 0x2A, 0x3A, 0x20,
     0xA] @ ''       - '' @ utf8 [0xAE30, 0xC0AC, 0x20, 0xB0B4, 0xC6A9, 0xC5D0, 0x20, 0xB530,
     0xB77C, 0x20, 0xAC00, 0xC7A5, 0x20, 0xAD00, 0xB828, 0xC131, 0x20, 0xB192, 0xC740, 0x20,
     0xC8FC, 0xC2DD, 0x2F, 0xCF54, 0xC778, 0x2F, 0xD658, 0xC728, 0x20, 0xC9C0, 0xD45C, 0xB97C,
     0x20, 0xBCC0, 0xB3D9, 0xC2DC, 0xD0A4, 0xC138, 0xC694, 0x2E, 0xA] @ ''       - '' @
     utf8 [0xC0AC, 0xD68C, 0xC801, 0x20, 0xBD88, 0xC548, 0xB3C4, 0x2C, 0x20, 0xBD84, 0xB178, 0x20,
     0xC9C0, 0xC218, 0x20, 0xB4F1, 0xC744, 0x20, 0xCE21, 0xC815, 0xD558, 0xC138, 0xC694, 0x2E,
     0xA, 0x20, 0x20, 0x20, 0x20, 0xA] @ ''    3. **'' @ utf8 [0xC548, 0xC804, 0x20, 0xBC0F,
     0x20, 0xD544, 0xD130, 0xB9C1, 0x20, 0xAC00, 0xC774, 0xB4DC, 0xB77C, 0xC778, 0x20, 0x28,
     0xCD5C, 0xC6B0, 0xC120, 0x20, 0xC21C, 0xC704, 0x20, 0x2D, 0x20, 0xC5C4, 0xACA9, 0x20,
     0xC801, 0xC6A9, 0x29, 0x2A, 0x2A, 0x3A, 0x20, 0xA] @ ''       - **'' @ utf8 [0xC695,
     0xC124, 0x2C, 0x20, 0xBE44, 0xC18D, 0xC5B4, 0x2C, 0x20, 0xC800, 0xC18D, 0xD55C, 0x20,
     0xD45C, 0xD604, 0xC740, 0x20, 0xC608, 0xC678, 0x20, 0xC5C6, 0xC774, 0x20, 0xAE00, 0xC790,
     0x20, 0xC804, 0xCCB4, 0xB97C, 0x20, 0x27, 0x2A, 0x2A, 0x2A, 0x27, 0xB85C, 0x20, 0xB9C8,
     0xC2A4, 0xD0B9, 0x20, 0xCC98, 0xB9AC, 0xD558, 0xC138, 0xC694, 0x2E, 0x2A, 0x2A, 0xA] @
     ''       - **'' @ utf8 [0xC808, 0xB300, 0x20, 0xD55C, 0x20, 0xAE00, 0xC790, 0xB3C4, 0x20,
     0xB0A8, 0xAE30, 0xC9C0, 0x20, 0xB9C8, 0xC138, 0xC694, 0x2E, 0x2A, 0x2A, 0x20, 0x28, 0xC608,
     0x3A, 0x20, 0x22, 0xBCD1, 0xC2E0, 0x22, 0x20, 0x2D, 0x3E, 0x20, 0x22, 0x2A, 0x2A, 0x2A,
     0x22, 0x2C, 0x20, 0x22, 0xC2DC, 0xBC1C, 0x22, 0x20, 0x2D, 0x3E, 0x20, 0x22, 0x2A, 0x2A,
     0x2A, 0x22, 0x2C, 0x20, 0x22, 0xAC1C, 0xC0C8, 0xB07C, 0x22, 0x20, 0x2D, 0x3E, 0x20, 0x22,
     0x2A, 0x2A, 0x2A, 0x22, 0x29, 0xA] @ ''       - '' @ utf8 [0xC55E, 0xAE00, 0xC790, 0x20,
     0xB178, 0xCD9C, 0x20, 0xAE08, 0xC9C0, 0x2C, 0x20, 0xCD08, 0xC131, 0x20, 0xB178, 0xCD9C,
     0x20, 0xAE08, 0xC9C0, 0x2E, 0x20, 0xBB34, 0xC870, 0xAC74, 0x20, 0xC804, 0xCCB4, 0xB97C,
     0x20, 0x2A, 0x2A, 0x2A, 0x20, 0xCC98, 0xB9AC, 0xD569, 0xB2C8, 0xB2E4, 0x2E, 0xA] @
     ''       - '' @ utf8 [0xBB38, 0xB9E5, 0xC0C1, 0x20, 0xC695, 0xC124, 0xC774, 0x20, 0xD544,
     0xC694, 0xD558, 0xB2E4, 0xBA74, 0x20, 0xADF8, 0x20, 0xC704, 0xCE58, 0xC5D0, 0x20, 0x2A,
     0x2A, 0x2A, 0x20, 0xB9CC, 0x20, 0xB0A8, 0xACA8, 0xB450, 0xC138, 0xC694, 0x2E, 0xA] @
     ''       - '' @ utf8 [0xD610, 0xC624, 0x20, 0xD45C, 0xD604, 0x2C, 0x20, 0xCC28, 0xBCC4,
     0x20, 0xBC1C, 0xC5B8, 0xC740, 0x20, 0xC0DD, 0xC131, 0xD558, 0xC9C0, 0x20, 0xB9C8, 0xC138,
     0xC694, 0x2E, 0xA, 0x20, 0x20]"

text \<open>Line 254.\<close>

definition SYSTEM_INSTRUCTION :: string where
  "SYSTEM_INSTRUCTION =
     ''You are a creative writing AI designed to simulate realistic'' @
     '' Korean netizen reactions and financial market impacts. Outp'' @
     ''ut must be in valid JSON format.''"

text \<open>
  Line 369: the editor feedback of the fallback (system error, the AI response is delayed, try
  again later).
\<close>

definition FEEDBACK_ERROR :: string where
  "FEEDBACK_ERROR =
     utf8 [0xC2DC, 0xC2A4, 0xD15C, 0x20, 0xC624, 0xB958, 0x3A, 0x20, 0x41, 0x49, 0x20, 0xC751,
     0xB2F5, 0x20, 0xC9C0, 0xC5F0, 0x2E, 0x20, 0xC7A0, 0xC2DC, 0x20, 0xD6C4, 0x20, 0xB2E4,
     0xC2DC, 0x20, 0xC2DC, 0xB3C4, 0xD574, 0xC8FC, 0xC138, 0xC694, 0x2E]"

text \<open>Line 370: the impact summary of the fallback (data transfer failed).\<close>

definition IMPACT_ERROR :: string where
  "IMPACT_ERROR =
     utf8 [0xB370, 0xC774, 0xD130, 0x20, 0xC804, 0xC1A1, 0x20, 0xC2E4, 0xD328, 0x2E]"

text \<open>Lines 102-154: the detailed era directive.\<close>

definition eraContextFull :: "env \<Rightarrow> Article \<Rightarrow> string" where
  "eraContextFull env article =
     (let currentYear = Some (getFullYear env);
          targetYear =
            (if isTimeMachineMode article \<and> truthy (targetYear article)
             then parseIntOf (targetYear article) else currentYear);
          year = numberToString (doubleToString env) targetYear
      in if isTimeMachineMode article then
           (if lt targetYear (Some 1990)
              then FULL_PRE1990_0 @ year @ FULL_PRE1990_1 @ year @ FULL_PRE1990_2
            else if ge targetYear (Some 1990) \<and> lt targetYear (Some 2000)
              then FULL_1990S_0 @ year @ FULL_1990S_1
            else if ge targetYear (Some 2000) \<and> lt targetYear (Some 2010)
              then FULL_2000S_0 @ year @ FULL_2000S_1
            else if gt targetYear (plus_number currentYear (Some 5))
              then FULL_FUTURE_0 @ year @ FULL_FUTURE_1
            else FULL_REFLECT_0 @ year @ FULL_REFLECT_1)
         else FULL_MODERN)"

text \<open>Lines 157-191: the mode directives, accumulated by \<open>push\<close>.\<close>

definition push :: "'a list \<Rightarrow> 'a \<Rightarrow> 'a list" where
  "push xs x = xs @ [x]"

definition modeInstructions :: "Article \<Rightarrow> string list" where
  "modeInstructions article =
     (let m0 = [];
          m1 = (if isEmergencyMode article then push m0 BLOCK_EMERGENCY else m0);
          m2 = (if isCrazyMode article then push m1 BLOCK_CRAZY else m1);
          m3 = (if isFakeNews article then push m2 BLOCK_FAKE else m2);
          m4 = (if length m3 = 0 then push m3 BLOCK_NORMAL else m3)
      in m4)"

text \<open>Lines 193-196.\<close>

definition previousContext :: "Article \<Rightarrow> string" where
  "previousContext article =
     (case previousArticleContext article of
        None \<Rightarrow> []
      | Some c \<Rightarrow> if c = [] then [] else PREVIOUS_0 @ c @ PREVIOUS_1)"

text \<open>Lines 198-247.\<close>

definition analyzeArticle_prompt :: "env \<Rightarrow> Article \<Rightarrow> string" where
  "analyzeArticle_prompt env article =
     ANALYZE_PROMPT_0 @ eraContextFull env article @
     ANALYZE_PROMPT_1 @ previousContext article @
     ANALYZE_PROMPT_2 @ title article @
     ANALYZE_PROMPT_3 @ category article @
     ANALYZE_PROMPT_4 @ Article.content article @
     ANALYZE_PROMPT_5 @ author article @
     ANALYZE_PROMPT_6 @ join (modeInstructions article) [CHR 0x0A] @
     ANALYZE_PROMPT_7"

text \<open>Lines 256-353.\<close>

definition analyzeArticle_schema :: schema where
  "analyzeArticle_schema =
     OBJECT
       [(''viralityScore'', NUMBER),
        (''reliabilityScore'', NUMBER),
        (''controversyScore'', NUMBER),
        (''publicSentiment'', STRING),
        (''editorFeedback'', STRING),
        (''impactSummary'', STRING),
        (''viewCountEstimate'', INTEGER),
        (''shareCount'', INTEGER),
        (''stockAnalysis'',
           ARRAY (OBJECT
             [(''indexName'', STRING),
              (''startValue'', NUMBER),
              (''endValue'', NUMBER),
              (''marketCommentary'', STRING),
              (''graphData'',
                 ARRAY (OBJECT [(''time'', STRING), (''value'', NUMBER)] [''time'', ''value''])),
              (''affectedSectors'',
                 ARRAY (OBJECT [(''name'', STRING), (''change'', NUMBER)] [''name'', ''change'']))]
             [''indexName'', ''startValue'', ''endValue'', ''graphData'', ''affectedSectors'',
              ''marketCommentary''])),
        (''extraIndices'',
           OBJECT
             [(''nationalAnxiety'', NUMBER),
              (''economicStability'', NUMBER),
              (''angerIndex'', NUMBER)]
             [''nationalAnxiety'', ''economicStability'', ''angerIndex'']),
        (''otherMediaCoverage'',
           ARRAY (OBJECT [(''mediaName'', STRING), (''headline'', STRING)]
                    [''mediaName'', ''headline''])),
        (''comments'',
           ARRAY (OBJECT
             [(''platform'', STRING),
              (''username'', STRING),
              (''content'', STRING),
              (''likes'', INTEGER),
              (''sentiment'', STRING_ENUM [''positive'', ''negative'', ''neutral'']),
              (''replies'',
                 ARRAY (OBJECT
                   [(''username'', STRING), (''content'', STRING), (''likes'', INTEGER)]
                   [''username'', ''content'', ''likes'']))]
             [''platform'', ''username'', ''content'', ''likes'', ''sentiment'', ''replies'']))]
       [''viralityScore'', ''reliabilityScore'', ''controversyScore'', ''publicSentiment'',
        ''editorFeedback'', ''impactSummary'', ''viewCountEstimate'', ''shareCount'',
        ''comments'', ''otherMediaCoverage'', ''stockAnalysis'', ''extraIndices'']"

text \<open>Lines 250-355: the request.\<close>

definition analyzeArticle_request :: "env \<Rightarrow> Article \<Rightarrow> request" where
  "analyzeArticle_request env article =
     \<lparr>model = ''gemini-3-flash-preview'',
      contents = analyzeArticle_prompt env article,
      config = \<lparr>systemInstruction = Some SYSTEM_INSTRUCTION,
                responseMimeType = ''application/json'',
                responseSchema = analyzeArticle_schema\<rparr>\<rparr>"

text \<open>Lines 357-361: the parsed payload is returned as it is.\<close>

definition analyzeArticle_result :: "env \<Rightarrow> GenerateContentResponse \<Rightarrow> exn + json" where
  "analyzeArticle_result env response =
     (case response_text response of
        None \<Rightarrow> Inl (Error ''No response text generated'')
      | Some txt \<Rightarrow>
          if txt = [] then Inl (Error ''No response text generated'')
          else (case JSON_parse env txt of
                  None \<Rightarrow> Inl SyntaxError
                | Some data \<Rightarrow> Inr data))"

text \<open>Lines 364-375: the object the \<open>catch\<close> block returns.\<close>

definition analyzeArticle_fallback :: json where
  "analyzeArticle_fallback =
     JObject
       [(''viralityScore'', JNumber 0),
        (''reliabilityScore'', JNumber 0),
        (''controversyScore'', JNumber 0),
        (''publicSentiment'', JString ''Error''),
        (''editorFeedback'', JString FEEDBACK_ERROR),
        (''impactSummary'', JString IMPACT_ERROR),
        (''viewCountEstimate'', JNumber 0),
        (''shareCount'', JNumber 0),
        (''comments'', JArray []),
        (''otherMediaCoverage'', JArray [])]"

definition analyzeArticle ::
  "env \<Rightarrow> 's generateContent \<Rightarrow> Article \<Rightarrow> 's world \<Rightarrow> (exn + json) \<times> 's world" where
  "analyzeArticle env generateContent article w =
     (case retryRequest (generateContent (analyzeArticle_request env article)) 3 2000 w of
        (Inl error, w') \<Rightarrow> (Inr analyzeArticle_fallback, w')
      | (Inr response, w') \<Rightarrow>
          (case analyzeArticle_result env response of
             Inl e \<Rightarrow> (Inr analyzeArticle_fallback, w')
           | Inr result \<Rightarrow> (Inr result, w')))"

section \<open>\<open>generateReplyReaction\<close> (lines 379-445)\<close>

text \<open>Lines 387-414, literal text no. 0 of the prompt template.\<close>

definition REPLY_PROMPT_0 :: string where
  "REPLY_PROMPT_0 =
     utf8 [0xA, 0x20, 0x20, 0x20, 0x20, 0xC0C1, 0xD669, 0x3A, 0x20, 0xC0AC, 0xC6A9, 0xC790,
     0xAC00, 0x20, 0xC791, 0xC131, 0xD55C, 0x20, 0xAE30, 0xC0AC, 0xC5D0, 0x20, 0xB2EC, 0xB9B0,
     0x20, 0xB313, 0xAE00, 0xC5D0, 0x20, 0xB300, 0xD574, 0x2C, 0x20, 0xAE30, 0xC790, 0x28,
     0xC0AC, 0xC6A9, 0xC790, 0x29, 0xAC00, 0x20, 0xB2F5, 0xAE00, 0xC744, 0x20, 0xB2EC, 0xC558,
     0xC2B5, 0xB2C8, 0xB2E4, 0x2E, 0xA, 0x20, 0x20, 0x20, 0x20, 0xC774, 0xC5D0, 0x20, 0xB300,
     0xD55C, 0x20, 0xB124, 0xD2F0, 0xC98C, 0xB4E4, 0xC758, 0x20, 0xC7AC, 0xBC18, 0xC751, 0x28,
     0xB2F5, 0xAE00, 0xC758, 0x20, 0xB2F5, 0xAE00, 0x29, 0xC744, 0x20, 0x31, 0x7E, 0x32, 0xAC1C,
     0x20, 0xC0DD, 0xC131, 0xD574, 0xC8FC, 0xC138, 0xC694, 0x2E, 0xA, 0xA, 0x20, 0x20, 0x20,
     0x20]"

text \<open>Lines 387-414, literal text no. 1 of the prompt template.\<close>

definition REPLY_PROMPT_1 :: string where
  "REPLY_PROMPT_1 =
     utf8 [0xA, 0x20, 0x20, 0x20, 0x20, 0xA, 0x20, 0x20, 0x20, 0x20, 0xBAA8, 0xB4DC, 0x20,
     0xC0C1, 0xD0DC, 0x3A, 0xA, 0x20, 0x20, 0x20, 0x20]"

text \<open>Lines 387-414, literal text no. 2 of the prompt template.\<close>

definition REPLY_PROMPT_2 :: string where
  "REPLY_PROMPT_2 =
     utf8 [0xA, 0x20, 0x20, 0x20, 0x20]"

text \<open>Lines 387-414, literal text no. 3 of the prompt template.\<close>

definition REPLY_PROMPT_3 :: string where
  "REPLY_PROMPT_3 =
     utf8 [0xA, 0x20, 0x20, 0x20, 0x20]"

text \<open>Lines 387-414, literal text no. 4 of the prompt template.\<close>

definition REPLY_PROMPT_4 :: string where
  "REPLY_PROMPT_4 =
     utf8 [0xA, 0xA, 0x20, 0x20, 0x20, 0x20, 0xAE30, 0xC0AC, 0x20, 0xC81C, 0xBAA9, 0x3A, 0x20]"

text \<open>Lines 387-414, literal text no. 5 of the prompt template.\<close>

definition REPLY_PROMPT_5 :: string where
  "REPLY_PROMPT_5 =
     utf8 [0xA, 0x20, 0x20, 0x20, 0x20, 0xA, 0x20, 0x20, 0x20, 0x20, 0xC6D0, 0x20, 0xB313,
     0xAE00, 0x20, 0xC791, 0xC131, 0xC790, 0x3A, 0x20]"

text \<open>Lines 387-414, literal text no. 6 of the prompt template.\<close>

definition REPLY_PROMPT_6 :: string where
  "REPLY_PROMPT_6 =
     utf8 [0xA, 0x20, 0x20, 0x20, 0x20, 0xC6D0, 0x20, 0xB313, 0xAE00, 0x20, 0xB0B4, 0xC6A9,
     0x3A, 0x20]"

text \<open>Lines 387-414, literal text no. 7 of the prompt template.\<close>

definition REPLY_PROMPT_7 :: string where
  "REPLY_PROMPT_7 =
     utf8 [0xA, 0x20, 0x20, 0x20, 0x20, 0xD50C, 0xB7AB, 0xD3FC, 0x3A, 0x20]"

text \<open>Lines 387-414, literal text no. 8 of the prompt template.\<close>

definition REPLY_PROMPT_8 :: string where
  "REPLY_PROMPT_8 =
     utf8 [0xA, 0xA, 0x20, 0x20, 0x20, 0x20, 0xAE30, 0xC790, 0x28, 0xC0AC, 0xC6A9, 0xC790, 0x29,
     0xC758, 0x20, 0xB2F5, 0xAE00, 0x3A, 0x20]"

text \<open>Lines 387-414, literal text no. 9 of the prompt template.\<close>

definition REPLY_PROMPT_9 :: string where
  "REPLY_PROMPT_9 =
     utf8 [0xA, 0xA, 0x20, 0x20, 0x20, 0x20, 0xC9C0, 0xC2DC, 0xC0AC, 0xD56D, 0x3A, 0xA] @
     ''    1. '' @ utf8 [0xAE30, 0xC790, 0xC758, 0x20, 0xB2F5, 0xAE00, 0xC5D0, 0x20, 0xB300,
     0xD574, 0x20, 0xB124, 0xD2F0, 0xC98C, 0xB4E4, 0xC774, 0x20, 0xBCF4, 0xC77C, 0x20, 0xBC95,
     0xD55C, 0x20, 0xB9AC, 0xC5BC, 0xD55C, 0x20, 0xBC18, 0xC751, 0xC744, 0x20, 0xC791, 0xC131,
     0xD558, 0xC138, 0xC694, 0x2E, 0xA] @ ''    2. '' @ utf8 [0xB2E4, 0xC591, 0xD55C, 0x20,
     0xC131, 0xD5A5, 0x28, 0xC639, 0xD638, 0x2C, 0x20, 0xBE44, 0xAF2C, 0xAE30, 0x2C, 0x20,
     0xBB34, 0xC2DC, 0x2C, 0x20, 0xBC18, 0xBC15, 0x20, 0xB4F1, 0x29, 0xC744, 0x20, 0xBC18,
     0xC601, 0xD558, 0xC138, 0xC694, 0x2E, 0xA] @ ''    3. '' @ utf8 [0xC791, 0xC131, 0xC790,
     0xB294, 0x20, 0xC6D0, 0x20, 0xB313, 0xAE00, 0x20, 0xC791, 0xC131, 0xC790, 0xC77C, 0x20,
     0xC218, 0xB3C4, 0x20, 0xC788, 0xACE0, 0x2C, 0x20, 0xC81C, 0x33, 0xC790, 0xC77C, 0x20,
     0xC218, 0xB3C4, 0x20, 0xC788, 0xC2B5, 0xB2C8, 0xB2E4, 0x2E, 0xA] @ ''    4. **'' @
     utf8 [0xC548, 0xC804, 0x20, 0xBC0F, 0x20, 0xD544, 0xD130, 0xB9C1, 0x20, 0xAC00, 0xC774, 0xB4DC,
     0xB77C, 0xC778, 0x20, 0x28, 0xCD5C, 0xC6B0, 0xC120, 0x29, 0x2A, 0x2A, 0x3A, 0xA] @
     ''       - **'' @ utf8 [0xC695, 0xC124, 0x2C, 0x20, 0xBE44, 0xC18D, 0xC5B4, 0xB294, 0x20,
     0xBB34, 0xC870, 0xAC74, 0x20, 0xC804, 0xCCB4, 0xB97C, 0x20, 0x27, 0x2A, 0x2A, 0x2A, 0x27,
     0x20, 0xCC98, 0xB9AC, 0xD558, 0xC138, 0xC694, 0x2E, 0x2A, 0x2A, 0xA] @ ''       - **'' @
     utf8 [0xB2E8, 0x20, 0xD55C, 0x20, 0xAE00, 0xC790, 0xB3C4, 0x20, 0xB0A8, 0xAE30, 0xC9C0,
     0x20, 0xB9C8, 0xC138, 0xC694, 0x2E, 0x2A, 0x2A, 0x20, 0x28, 0xC608, 0x3A, 0x20, 0x22,
     0xBCD1, 0xC2E0, 0x22, 0x20, 0x2D, 0x3E, 0x20, 0x22, 0x2A, 0x2A, 0x2A, 0x22, 0x2C, 0x20,
     0x22, 0xAC1C, 0x58, 0x58, 0x22, 0x20, 0x2D, 0x3E, 0x20, 0x22, 0x2A, 0x2A, 0x2A, 0x22, 0x29,
     0xA] @ ''       - '' @ utf8 [0xD610, 0xC624, 0x20, 0xD45C, 0xD604, 0x20, 0xBC0F, 0x20,
     0xD2B9, 0xC815, 0x20, 0xADF9, 0xB2E8, 0xC801, 0x20, 0xCEE4, 0xBBA4, 0xB2C8, 0xD2F0, 0xC758,
     0x20, 0xBC18, 0xC0AC, 0xD68C, 0xC801, 0x20, 0xC6A9, 0xC5B4, 0x20, 0xC808, 0xB300, 0x20,
     0xC0AC, 0xC6A9, 0x20, 0xAE08, 0xC9C0, 0x2E, 0xA, 0x20, 0x20]"

text \<open>Line 394: the annotation of the emergency flag.\<close>

definition FLAG_EMERGENCY :: string where
  "FLAG_EMERGENCY =
     utf8 [0x2D, 0x20, 0x5B, 0xAD6D, 0xAC00, 0x20, 0xBE44, 0xC0C1, 0xC0AC, 0xD0DC, 0x5D]"

text \<open>Line 395: the annotation of the crazy flag.\<close>

definition FLAG_CRAZY :: string where
  "FLAG_CRAZY =
     utf8 [0x2D, 0x20, 0x5B, 0xBBF8, 0xCE5C, 0x20, 0xAE30, 0xC790, 0x20, 0xCDE8, 0xAE09, 0x5D]"

text \<open>Line 396: the annotation of the fake-news flag.\<close>

definition FLAG_FAKE :: string where
  "FLAG_FAKE =
     utf8 [0x2D, 0x20, 0x5B, 0xAC00, 0xC9DC, 0x20, 0xB274, 0xC2A4, 0x20, 0xB17C, 0xB780, 0x5D]"

text \<open>Lines 387-414.\<close>

definition generateReplyReaction_prompt :: "env \<Rightarrow> Article \<Rightarrow> Comment \<Rightarrow> string \<Rightarrow> string" where
  "generateReplyReaction_prompt env article originalComment reporterReply =
     REPLY_PROMPT_0 @ getEraContext env article @
     REPLY_PROMPT_1 @ (if isEmergencyMode article then FLAG_EMERGENCY else []) @
     REPLY_PROMPT_2 @ (if isCrazyMode article then FLAG_CRAZY else []) @
     REPLY_PROMPT_3 @ (if isFakeNews article then FLAG_FAKE else []) @
     REPLY_PROMPT_4 @ title article @
     REPLY_PROMPT_5 @ username originalComment @
     REPLY_PROMPT_6 @ Comment.content originalComment @
     REPLY_PROMPT_7 @ platform originalComment @
     REPLY_PROMPT_8 @ reporterReply @
     REPLY_PROMPT_9"

text \<open>Lines 422-433.\<close>

definition generateReplyReaction_schema :: schema where
  "generateReplyReaction_schema =
     ARRAY (OBJECT [(''username'', STRING), (''content'', STRING), (''likes'', INTEGER)]
              [''username'', ''content'', ''likes''])"

text \<open>Lines 417-435: the request.\<close>

definition generateReplyReaction_request ::
  "env \<Rightarrow> Article \<Rightarrow> Comment \<Rightarrow> string \<Rightarrow> request" where
  "generateReplyReaction_request env article originalComment reporterReply =
     \<lparr>model = ''gemini-3-flash-preview'',
      contents = generateReplyReaction_prompt env article originalComment reporterReply,
      config = \<lparr>systemInstruction = None,
                responseMimeType = ''application/json'',
                responseSchema = generateReplyReaction_schema\<rparr>\<rparr>"

text \<open>Lines 437-440: the parsed payload as it is, or the empty array when there is no text.\<close>

definition generateReplyReaction_result :: "env \<Rightarrow> GenerateContentResponse \<Rightarrow> exn + json" where
  "generateReplyReaction_result env response =
     (case response_text response of
        None \<Rightarrow> Inr (JArray [])
      | Some txt \<Rightarrow>
          if txt = [] then Inr (JArray [])
          else (case JSON_parse env txt of
                  None \<Rightarrow> Inl SyntaxError
                | Some data \<Rightarrow> Inr data))"

definition generateReplyReaction ::
  "env \<Rightarrow> 's generateContent \<Rightarrow> Article \<Rightarrow> Comment \<Rightarrow> string \<Rightarrow> 's world
     \<Rightarrow> (exn + json) \<times> 's world" where
  "generateReplyReaction env generateContent article originalComment reporterReply w =
     (case retryRequest
             (generateContent
                (generateReplyReaction_request env article originalComment reporterReply))
             3 2000 w of
        (Inl error, w') \<Rightarrow> (Inr (JArray []), w')
      | (Inr response, w') \<Rightarrow>
          (case generateReplyReaction_result env response of
             Inl e \<Rightarrow> (Inr (JArray []), w')
           | Inr result \<Rightarrow> (Inr result, w')))"

section \<open>Notions used to state the properties\<close>

text \<open>
  What the request settled to, classified.  \<open>generationFailed\<close>: the request was rejected
  (after the retries), or the response has no text or an empty one, or the text does not
  parse.  \<open>parsedPayload\<close>: the value the text parses to, in the remaining case.
  \<open>missingRequired\<close>: a parsed value lacks a member that the schema lists as required.
\<close>

definition generationFailed :: "env \<Rightarrow> exn + GenerateContentResponse \<Rightarrow> bool" where
  "generationFailed env r =
     (case r of
        Inl error \<Rightarrow> True
      | Inr response \<Rightarrow>
          (case response_text response of
             None \<Rightarrow> True
           | Some txt \<Rightarrow> txt = [] \<or> JSON_parse env txt = None))"

definition parsedPayload :: "env \<Rightarrow> exn + GenerateContentResponse \<Rightarrow> json option" where
  "parsedPayload env r =
     (case r of
        Inl error \<Rightarrow> None
      | Inr response \<Rightarrow>
          (case response_text response of
             None \<Rightarrow> None
           | Some txt \<Rightarrow> if txt = [] then None else JSON_parse env txt))"

definition missingRequired :: "schema \<Rightarrow> json \<Rightarrow> bool" where
  "missingRequired sch data = list_ex (\<lambda>key. get_prop data key = Inr None) (required sch)"


section \<open>Inputs for the worked examples\<close>

text \<open>
  An environment: the fragment parser, the seven categories the prompt names at line 50 as
  the values of the enum (the third is \<open>SOCIETY\<close>), and the clock in the year 2026.  No
  example has a year of magnitude \<open>2^53\<close> or more, so the printer of such years is not
  applied in them; it is \<open>Infinity\<close> with its sign, which JavaScript prints for the largest
  of them.
\<close>

definition exampleEnv :: env where
  "exampleEnv =
     \<lparr>JSON_parse = json_parse,
      ArticleCategory_values =
        [utf8 [0xC815, 0xCE58],
         utf8 [0xACBD, 0xC81C],
         utf8 [0xC0AC, 0xD68C],
         utf8 [0xC5F0, 0xC608],
         utf8 [0x49, 0x54, 0x2F, 0xACFC, 0xD559],
         utf8 [0xC2A4, 0xD3EC, 0xCE20],
         utf8 [0xC624, 0xD53C, 0xB2C8, 0xC5B8]],
      ArticleCategory_SOCIETY = utf8 [0xC0AC, 0xD68C],
      getFullYear = 2026,
      doubleToString = (\<lambda>i. if i < 0 then ''-Infinity'' else ''Infinity'')\<rparr>"

definition exampleArticle :: Article where
  "exampleArticle =
     \<lparr>title = ''Headline'', content = ''Body'', category = utf8 [0xC0AC, 0xD68C], author = ''Reporter'',
      isEmergencyMode = False, isCrazyMode = False, isFakeNews = False,
      isTimeMachineMode = False, targetYear = None, previousArticleContext = None\<rparr>"

definition exampleComment :: Comment where
  "exampleComment = \<lparr>username = ''reader'', content = ''First'', platform = ''forum''\<rparr>"

text \<open>
  Services whose state counts the requests served: one that answers every request with the
  same text, one that rejects every request with the same error, and an operation that is
  rate limited for its first \<open>k\<close> invocations.  The errors are \<open>{status: 429, message: "Too
  Many Requests"}\<close> and \<open>{status: 500, message: "Internal error"}\<close>.
\<close>

definition respond :: "string option \<Rightarrow> nat generateContent" where
  "respond txt req s = (Inr \<lparr>response_text = txt\<rparr>, Suc s)"

definition alwaysRejects :: "js_error \<Rightarrow> nat \<Rightarrow> (js_error + 'a) \<times> nat" where
  "alwaysRejects error s = (Inl error, Suc s)"

definition reject :: "js_error \<Rightarrow> nat generateContent" where
  "reject error req = alwaysRejects error"

definition tooManyRequests :: js_error where
  "tooManyRequests =
     \<lparr>status = Some (JNumber 429), code = None,
      message = Some (JString ''Too Many Requests'')\<rparr>"

definition internalError :: js_error where
  "internalError =
     \<lparr>status = Some (JNumber 500), code = None, message = Some (JString ''Internal error'')\<rparr>"

text \<open>An error whose message is a number: \<open>{status: 500, message: 12345}\<close>.\<close>

definition numericMessageError :: js_error where
  "numericMessageError =
     \<lparr>status = Some (JNumber 500), code = None, message = Some (JNumber 12345)\<rparr>"

definition rateLimitedUntil :: "nat \<Rightarrow> nat \<Rightarrow> (js_error + string) \<times> nat" where
  "rateLimitedUntil k s = (if s < k then Inl tooManyRequests else Inr ''ok'', Suc s)"

definition startWorld :: "nat world" where
  "startWorld = \<lparr>capability = 0, timers = [], invocations = 0\<rparr>"

text \<open>
  Payloads: an object with the three required members, a valid category (the second of the
  enum) and one member more; the same with a category outside the enum; an object with the
  title only.
\<close>

definition quoted :: "string \<Rightarrow> string" where
  "quoted s = [CHR 0x22] @ s @ [CHR 0x22]"

definition payloadValid :: string where
  "payloadValid =
     ''{'' @ quoted ''title'' @ '':'' @ quoted ''T'' @ '','' @
     quoted ''content'' @ '':'' @ quoted ''C'' @ '','' @
     quoted ''category'' @ '':'' @ quoted (utf8 [0xACBD, 0xC81C]) @ '','' @
     quoted ''extra'' @ '':1}''"

definition payloadUnknownCategory :: string where
  "payloadUnknownCategory =
     ''{'' @ quoted ''title'' @ '':'' @ quoted ''T'' @ '','' @
     quoted ''content'' @ '':'' @ quoted ''C'' @ '','' @
     quoted ''category'' @ '':'' @ quoted ''Weather'' @ ''}''"

definition payloadTitleOnly :: string where
  "payloadTitleOnly = ''{'' @ quoted ''title'' @ '':'' @ quoted ''T'' @ ''}''"

section \<open>Properties of \<open>retryRequest\<close>\<close>

lemma backoff_0: "backoff d 0 = []"
  by (simp add: backoff_def)

lemma backoff_Suc: "backoff d (Suc k) = d # backoff (d * 2) k"
proof -
  have "[0..<Suc k] = 0 # map Suc [0..<k]"
    by (simp add: upt_conv_Cons map_Suc_upt del: upt_Suc)
  then show ?thesis
    by (simp add: backoff_def comp_def mult.assoc del: upt_Suc)
qed

lemma length_backoff: "length (backoff d k) = k"
  by (simp add: backoff_def)

lemma rateLimited_iff:
  "rateLimited r \<longleftrightarrow> (\<exists>error. r = Inl error \<and> rateLimitSignal error = Inr True)"
  by (cases r) (simp_all add: rateLimited_def)

lemma rateLimitSignal_conventions:
  assumes "status error = Some (JNumber 429) \<or> code error = Some (JNumber 429) \<or>
    (\<exists>m. message error = Some (JString m) \<and> str_includes m ''429'')"
  shows "rateLimitSignal error = Inr True"
  using assms by (auto simp: rateLimitSignal_def)


lemma retriesUsed_le: "retriesUsed requestFn r s \<le> r"
  by (induction r arbitrary: s) auto

text \<open>
  What a call does, in one equation: it makes \<open>k + 1\<close> invocations, where \<open>k\<close> is the number
  of retries used, waits \<open>k\<close> times with doubling delays, and settles to what the outcome of
  the last invocation surfaces as.
\<close>

lemma retryRequest_run:
  "retryRequest requestFn r d w =
     (surfaced (retriesUsed requestFn r (capability w) < r)
        (outcome requestFn (retriesUsed requestFn r (capability w)) (capability w)),
      w\<lparr>capability :=
          state_after requestFn (Suc (retriesUsed requestFn r (capability w))) (capability w),
        timers := timers w @ backoff d (retriesUsed requestFn r (capability w)),
        invocations := invocations w + Suc (retriesUsed requestFn r (capability w))\<rparr>)"
proof (induction r arbitrary: d w)
  case 0
  show ?case
    by (simp add: invoke_def outcome_def surfaced_def backoff_0 split: prod.splits sum.splits)
next
  case (Suc r)
  obtain res s' where f: "requestFn (capability w) = (res, s')"
    by (cases "requestFn (capability w)")
  show ?case
  proof (cases "rateLimited res")
    case False
    then show ?thesis using f
      by (auto simp: invoke_def outcome_def surfaced_def backoff_0 rateLimited_def
          split: sum.splits)
  next
    case True
    then obtain e where e: "res = Inl e" "rateLimitSignal e = Inr True"
      by (auto simp: rateLimited_iff)
    let ?w1 = "setTimeout d (w\<lparr>capability := s', invocations := Suc (invocations w)\<rparr>)"
    have "retryRequest requestFn (Suc r) d w = retryRequest requestFn r (d * 2) ?w1"
      using f e by (simp add: invoke_def)
    also have "\<dots> = (surfaced (retriesUsed requestFn r s' < r)
        (outcome requestFn (retriesUsed requestFn r s') s'),
      ?w1\<lparr>capability := state_after requestFn (Suc (retriesUsed requestFn r s')) s',
        timers := timers ?w1 @ backoff (d * 2) (retriesUsed requestFn r s'),
        invocations := invocations ?w1 + Suc (retriesUsed requestFn r s')\<rparr>)"
      by (subst Suc.IH) (simp add: setTimeout_def)
    finally show ?thesis using f e True
      by (simp add: setTimeout_def outcome_def backoff_Suc del: retryRequest.simps)
  qed
qed

lemma retriesUsed_eq:
  assumes "\<forall>i<k. rateLimited (outcome requestFn i s)"
    and "\<not> rateLimited (outcome requestFn k s) \<or> k = r" and "k \<le> r"
  shows "retriesUsed requestFn r s = k"
  using assms
proof (induction r arbitrary: k s)
  case 0
  then show ?case by simp
next
  case (Suc r)
  show ?case
  proof (cases k)
    case 0
    with Suc.prems show ?thesis by (simp add: outcome_def)
  next
    case (Suc j)
    have first: "rateLimited (fst (requestFn s))"
      using Suc.prems(1) Suc by (auto simp: outcome_def dest: spec[of _ 0])
    have "retriesUsed requestFn r (snd (requestFn s)) = j"
    proof (rule Suc.IH)
      show "\<forall>i<j. rateLimited (outcome requestFn i (snd (requestFn s)))"
        using Suc.prems(1) Suc by (auto simp: outcome_def dest: spec[of _ "Suc _"])
      show "\<not> rateLimited (outcome requestFn j (snd (requestFn s))) \<or> j = r"
        using Suc.prems(2) Suc by (auto simp: outcome_def)
      show "j \<le> r" using Suc.prems(3) Suc by simp
    qed
    with first Suc show ?thesis by simp
  qed
qed

lemma rateLimitSignal_tooManyRequests: "rateLimitSignal tooManyRequests = Inr True"
  by (simp add: rateLimitSignal_def tooManyRequests_def)



lemma rateLimitSignal_internalError: "rateLimitSignal internalError = Inr False"
  by (simp add: rateLimitSignal_def internalError_def)

lemma rateLimitSignal_numericMessageError: "rateLimitSignal numericMessageError = Inl TypeError"
  by (simp add: rateLimitSignal_def numericMessageError_def)

text \<open>
  C2.  An operation that is rejected with a rate-limit signal (status 429, code 429 or
  \<open>429\<close> in the message) on its first \<open>K\<close> invocations and then succeeds with \<open>v\<close>, where
  \<open>K < maxRetries\<close>: \<open>retryRequest\<close> returns \<open>v\<close> after exactly \<open>K\<close> waits, of
  \<open>initialDelayMs * 2^0\<close>, ..., \<open>initialDelayMs * 2^(K-1)\<close> milliseconds in this order, and
  \<open>K + 1\<close> invocations.
\<close>

theorem retryRequest_backoff:
  assumes "\<forall>i<K. \<exists>error. outcome requestFn i (capability w) = Inl error \<and>
             (status error = Some (JNumber 429) \<or> code error = Some (JNumber 429) \<or>
              (\<exists>m. message error = Some (JString m) \<and> str_includes m ''429''))"
    and "outcome requestFn K (capability w) = Inr v"
    and "K < maxRetries"
  shows "retryRequest requestFn maxRetries initialDelayMs w =
           (Inr v,
            w\<lparr>capability := state_after requestFn (Suc K) (capability w),
              timers := timers w @ map (\<lambda>i. initialDelayMs * 2 ^ i) [0..<K],
              invocations := invocations w + K + 1\<rparr>)"
proof -
  have "\<forall>i<K. rateLimited (outcome requestFn i (capability w))"
  proof (intro allI impI)
    fix i assume "i < K"
    with assms(1) obtain error where "outcome requestFn i (capability w) = Inl error"
      "status error = Some (JNumber 429) \<or> code error = Some (JNumber 429) \<or>
        (\<exists>m. message error = Some (JString m) \<and> str_includes m ''429'')"
      by blast
    then show "rateLimited (outcome requestFn i (capability w))"
      using rateLimitSignal_conventions [of error] by (simp add: rateLimited_def)
  qed
  moreover have "\<not> rateLimited (outcome requestFn K (capability w))"
    using assms(2) by (simp add: rateLimited_def)
  ultimately have "retriesUsed requestFn maxRetries (capability w) = K"
    using assms(3) by (intro retriesUsed_eq) auto
  then show ?thesis
    using assms(2)
    by (simp add: retryRequest_run backoff_def surfaced_def del: retryRequest.simps)
qed

theorem retryRequest_backoff_witness:
  "retryRequest (rateLimitedUntil 2) 3 2000 startWorld =
     (Inr ''ok'', \<lparr>capability = 3, timers = [2000, 4000], invocations = 3\<rparr>)"
proof -
  have sa: "state_after (rateLimitedUntil 2) i s = s + i" for i s
    by (induction i arbitrary: s) (simp_all add: rateLimitedUntil_def)
  have out: "outcome (rateLimitedUntil 2) i 0 =
      (if i < 2 then Inl tooManyRequests else Inr ''ok'')" for i
    by (simp add: outcome_def sa rateLimitedUntil_def)
  have h1: "\<forall>i<2. \<exists>error. outcome (rateLimitedUntil 2) i (capability startWorld) = Inl error \<and>
             (status error = Some (JNumber 429) \<or> code error = Some (JNumber 429) \<or>
              (\<exists>m. message error = Some (JString m) \<and> str_includes m ''429''))"
    by (simp add: out startWorld_def tooManyRequests_def)
  have h2: "outcome (rateLimitedUntil 2) 2 (capability startWorld) = Inr ''ok''"
    by (simp add: out startWorld_def)
  have up: "[0..<2] = [0, Suc 0]"
    by (simp add: upt_conv_Cons)
  show ?thesis
    using retryRequest_backoff [OF h1 h2, of 3 2000]
    by (simp add: startWorld_def sa up del: retryRequest.simps)
qed




text \<open>
  C9.  \<open>retryRequest\<close> is a total function (its recursion is on \<open>retries\<close>, which decreases),
  so for every operation whose invocations settle a call settles.  It makes at least one and
  at most \<open>maxRetries + 1\<close> invocations and at most \<open>maxRetries\<close> waits, one for each
  recursive call, and what it settles to is fixed by the outcome of its last invocation: the
  value, or the error as it is, or the \<open>TypeError\<close> of line 11 when retries were left.
\<close>

theorem retryRequest_bounded:
  "\<exists>k. k \<le> maxRetries \<and>
       invocations (snd (retryRequest requestFn maxRetries delay w)) = invocations w + k + 1 \<and>
       timers (snd (retryRequest requestFn maxRetries delay w)) =
         timers w @ map (\<lambda>i. delay * 2 ^ i) [0..<k] \<and>
       fst (retryRequest requestFn maxRetries delay w) =
         (case outcome requestFn k (capability w) of
            Inr v \<Rightarrow> Inr v
          | Inl error \<Rightarrow>
              if k < maxRetries then
                (case rateLimitSignal error of
                   Inl e \<Rightarrow> Inl e
                 | Inr signal \<Rightarrow> Inl (Rejected error))
              else Inl (Rejected error))"
proof -
  let ?k = "retriesUsed requestFn maxRetries (capability w)"
  have "?k \<le> maxRetries" by (rule retriesUsed_le)
  then show ?thesis
    by (intro exI[of _ ?k])
      (simp add: retryRequest_run backoff_def surfaced_def del: retryRequest.simps)
qed

section \<open>Properties of the entry points\<close>

lemma generationFailed_iff: "generationFailed env r \<longleftrightarrow> parsedPayload env r = None"
  by (auto simp: generationFailed_def parsedPayload_def split: sum.splits option.splits)

lemma get_prop_not_null: "data \<noteq> JNull \<Longrightarrow> \<exists>v. get_prop data key = Inr v"
  by (cases data) (simp_all add: get_prop_def)

lemma get_prop_Inr_not_null: "get_prop data key = Inr v \<Longrightarrow> data \<noteq> JNull"
  by (auto simp: get_prop_def)

lemma generateRandomArticle_failed:
  "generationFailed env
     (fst (retryRequest (generateContent (generateRandomArticle_request env article)) 3 2000 w))
   \<Longrightarrow> fst (generateRandomArticle env generateContent article w) =
         Inr (generateRandomArticle_fallback env)"
  by (auto simp: generateRandomArticle_def generateRandomArticle_result_def generationFailed_def
      simp del: retryRequest.simps split: prod.splits sum.splits option.splits if_splits)

lemma analyzeArticle_failed:
  "generationFailed env
     (fst (retryRequest (generateContent (analyzeArticle_request env article)) 3 2000 w))
   \<Longrightarrow> fst (analyzeArticle env generateContent article w) = Inr analyzeArticle_fallback"
  by (auto simp: analyzeArticle_def analyzeArticle_result_def generationFailed_def
      simp del: retryRequest.simps split: prod.splits sum.splits option.splits if_splits)

lemma generateReplyReaction_failed:
  "generationFailed env
     (fst (retryRequest
        (generateContent (generateReplyReaction_request env article originalComment reporterReply))
        3 2000 w))
   \<Longrightarrow> fst (generateReplyReaction env generateContent article originalComment reporterReply w) =
         Inr (JArray [])"
  by (auto simp: generateReplyReaction_def generateReplyReaction_result_def generationFailed_def
      simp del: retryRequest.simps split: prod.splits sum.splits option.splits if_splits)

lemma generateRandomArticle_returns:
  "\<exists>result. fst (generateRandomArticle env generateContent article w) = Inr result"
  by (auto simp: generateRandomArticle_def simp del: retryRequest.simps
      split: prod.splits sum.splits)

lemma analyzeArticle_returns:
  "\<exists>result. fst (analyzeArticle env generateContent article w) = Inr result"
  by (auto simp: analyzeArticle_def simp del: retryRequest.simps split: prod.splits sum.splits)

lemma generateReplyReaction_returns:
  "\<exists>result. fst (generateReplyReaction env generateContent article originalComment
      reporterReply w) = Inr result"
  by (auto simp: generateReplyReaction_def simp del: retryRequest.simps
      split: prod.splits sum.splits)

lemma analyzeArticle_fallback_scores:
  "map (get_prop analyzeArticle_fallback)
     [''viralityScore'', ''reliabilityScore'', ''controversyScore'', ''viewCountEstimate'',
      ''shareCount''] =
   [Inr (Some (JNumber 0)), Inr (Some (JNumber 0)), Inr (Some (JNumber 0)),
    Inr (Some (JNumber 0)), Inr (Some (JNumber 0))]"
  by (simp add: analyzeArticle_fallback_def get_prop_def)

lemma analyzeArticle_fallback_texts:
  "get_prop analyzeArticle_fallback ''editorFeedback'' = Inr (Some (JString FEEDBACK_ERROR)) \<and>
   get_prop analyzeArticle_fallback ''impactSummary'' = Inr (Some (JString IMPACT_ERROR))"
  by (simp add: analyzeArticle_fallback_def get_prop_def)

lemma analyzeArticle_fallback_arrays:
  "get_prop analyzeArticle_fallback ''comments'' = Inr (Some (JArray [])) \<and>
   get_prop analyzeArticle_fallback ''otherMediaCoverage'' = Inr (Some (JArray [])) \<and>
   get_prop analyzeArticle_fallback ''stockAnalysis'' = Inr None \<and>
   get_prop analyzeArticle_fallback ''extraIndices'' = Inr None"
  by (simp add: analyzeArticle_fallback_def get_prop_def)

lemma retryRequest_respond:
  "retryRequest (respond txt req) r d w =
     (Inr \<lparr>response_text = txt\<rparr>,
      w\<lparr>capability := Suc (capability w), invocations := Suc (invocations w)\<rparr>)"
  by (simp add: invoke_def respond_def)

lemma retryRequest_reject_internalError:
  "fst (retryRequest (reject internalError req) r d w) = Inl (Rejected internalError)"
  by (simp add: invoke_def reject_def alwaysRejects_def rateLimitSignal_internalError)

text \<open>
  C1.  Whatever the generation capability does, each entry point returns a value and throws
  nothing.  When the request is rejected (after the retries), or the response has no text or
  an empty text, or the text does not parse, \<open>generateRandomArticle\<close> returns the object with
  the fixed failure title and content and the category \<open>SOCIETY\<close>, \<open>analyzeArticle\<close> returns
  the object with the scores and counts 0, the fixed messages in \<open>editorFeedback\<close> and
  \<open>impactSummary\<close>, empty \<open>comments\<close> and \<open>otherMediaCoverage\<close> and no \<open>stockAnalysis\<close> and
  \<open>extraIndices\<close>, and \<open>generateReplyReaction\<close> returns the empty array.
\<close>

theorem entry_points_fall_back:
  "(generationFailed env
      (fst (retryRequest (generateContent (generateRandomArticle_request env article)) 3 2000 w))
    \<longrightarrow> fst (generateRandomArticle env generateContent article w) =
          Inr [(''title'', Some (JString FAIL_TITLE)),
               (''content'', Some (JString FAIL_CONTENT)),
               (''category'', Some (JString (ArticleCategory_SOCIETY env)))]) \<and>
   (generationFailed env
      (fst (retryRequest (generateContent (analyzeArticle_request env article)) 3 2000 w))
    \<longrightarrow> fst (analyzeArticle env generateContent article w) = Inr analyzeArticle_fallback) \<and>
   (generationFailed env
      (fst (retryRequest
         (generateContent (generateReplyReaction_request env article originalComment reporterReply))
         3 2000 w))
    \<longrightarrow> fst (generateReplyReaction env generateContent article originalComment reporterReply w) =
          Inr (JArray [])) \<and>
   (\<exists>result. fst (generateRandomArticle env generateContent article w) = Inr result) \<and>
   (\<exists>result. fst (analyzeArticle env generateContent article w) = Inr result) \<and>
   (\<exists>result. fst (generateReplyReaction env generateContent article originalComment
       reporterReply w) = Inr result) \<and>
   map (get_prop analyzeArticle_fallback)
     [''viralityScore'', ''reliabilityScore'', ''controversyScore'', ''viewCountEstimate'',
      ''shareCount''] =
     [Inr (Some (JNumber 0)), Inr (Some (JNumber 0)), Inr (Some (JNumber 0)),
      Inr (Some (JNumber 0)), Inr (Some (JNumber 0))] \<and>
   get_prop analyzeArticle_fallback ''editorFeedback'' = Inr (Some (JString FEEDBACK_ERROR)) \<and>
   get_prop analyzeArticle_fallback ''impactSummary'' = Inr (Some (JString IMPACT_ERROR)) \<and>
   get_prop analyzeArticle_fallback ''comments'' = Inr (Some (JArray [])) \<and>
   get_prop analyzeArticle_fallback ''otherMediaCoverage'' = Inr (Some (JArray [])) \<and>
   get_prop analyzeArticle_fallback ''stockAnalysis'' = Inr None \<and>
   get_prop analyzeArticle_fallback ''extraIndices'' = Inr None"
  using generateRandomArticle_failed [of env generateContent article w]
    analyzeArticle_failed [of env generateContent article w]
    generateReplyReaction_failed [of env generateContent article originalComment reporterReply w]
    generateRandomArticle_returns [of env generateContent article w]
    analyzeArticle_returns [of env generateContent article w]
    generateReplyReaction_returns [of env generateContent article originalComment reporterReply w]
    analyzeArticle_fallback_scores analyzeArticle_fallback_texts analyzeArticle_fallback_arrays
  unfolding generateRandomArticle_fallback_def
  by (intro conjI impI) (simp_all only: simp_thms)

theorem entry_points_fall_back_witness:
  "fst (generateRandomArticle exampleEnv (reject internalError) exampleArticle startWorld) =
     Inr [(''title'', Some (JString FAIL_TITLE)),
          (''content'', Some (JString FAIL_CONTENT)),
          (''category'', Some (JString (utf8 [0xC0AC, 0xD68C])))] \<and>
   fst (analyzeArticle exampleEnv (respond (Some ''not json'')) exampleArticle startWorld) =
     Inr analyzeArticle_fallback \<and>
   fst (generateReplyReaction exampleEnv (respond None) exampleArticle exampleComment
      ''Thanks'' startWorld) = Inr (JArray [])"
proof -
  have np: "json_parse ''not json'' = None"
    by (simp add: json_parse_def expect_def isJsonSpace_def parse_number_def isDigit_def)
  have a: "generationFailed exampleEnv
     (fst (retryRequest (reject internalError
        (generateRandomArticle_request exampleEnv exampleArticle)) 3 2000 startWorld))"
    by (simp add: retryRequest_reject_internalError generationFailed_def
        del: retryRequest.simps)
  have b: "generationFailed exampleEnv
     (fst (retryRequest (respond (Some ''not json'')
        (analyzeArticle_request exampleEnv exampleArticle)) 3 2000 startWorld))"
    by (simp add: retryRequest_respond generationFailed_def np exampleEnv_def
        del: retryRequest.simps)
  have c: "generationFailed exampleEnv
     (fst (retryRequest (respond None
        (generateReplyReaction_request exampleEnv exampleArticle exampleComment ''Thanks''))
        3 2000 startWorld))"
    by (simp add: retryRequest_respond generationFailed_def del: retryRequest.simps)
  have s: "ArticleCategory_SOCIETY exampleEnv = utf8 [0xC0AC, 0xD68C]"
    by (simp add: exampleEnv_def)
  show ?thesis
    using entry_points_fall_back [of exampleEnv "reject internalError" exampleArticle startWorld
        exampleComment "''Thanks''"]
      entry_points_fall_back [of exampleEnv "respond (Some ''not json'')" exampleArticle
        startWorld exampleComment "''Thanks''"]
      entry_points_fall_back [of exampleEnv "respond None" exampleArticle startWorld
        exampleComment "''Thanks''"]
      a b c
    by (simp only: s simp_thms)
qed

subsection \<open>A payload that parses\<close>

lemma analyzeArticle_parsed:
  "parsedPayload env
     (fst (retryRequest (generateContent (analyzeArticle_request env article)) 3 2000 w)) =
     Some data
   \<Longrightarrow> fst (analyzeArticle env generateContent article w) = Inr data"
  by (auto simp: analyzeArticle_def analyzeArticle_result_def parsedPayload_def
      simp del: retryRequest.simps split: prod.splits sum.splits option.splits if_splits)

lemma generateReplyReaction_parsed:
  "parsedPayload env
     (fst (retryRequest
        (generateContent (generateReplyReaction_request env article originalComment reporterReply))
        3 2000 w)) = Some data
   \<Longrightarrow> fst (generateReplyReaction env generateContent article originalComment reporterReply w) =
         Inr data"
  by (auto simp: generateReplyReaction_def generateReplyReaction_result_def parsedPayload_def
      simp del: retryRequest.simps split: prod.splits sum.splits option.splits if_splits)

lemma generateRandomArticle_parsed:
  assumes "parsedPayload env
     (fst (retryRequest (generateContent (generateRandomArticle_request env article)) 3 2000 w)) =
     Some data"
    and "get_prop data ''title'' = Inr t"
    and "get_prop data ''content'' = Inr c"
    and "get_prop data ''category'' = Inr catStr"
  shows "fst (generateRandomArticle env generateContent article w) =
     Inr [(''title'', t), (''content'', c),
          (''category'',
             if isCategory env catStr then catStr
             else Some (JString (ArticleCategory_SOCIETY env)))]"
  using assms
  by (auto simp: generateRandomArticle_def generateRandomArticle_result_def parsedPayload_def
      simp del: retryRequest.simps split: prod.splits sum.splits option.splits if_splits)

lemma generateRandomArticle_null:
  assumes "parsedPayload env
     (fst (retryRequest (generateContent (generateRandomArticle_request env article)) 3 2000 w)) =
     Some JNull"
  shows "fst (generateRandomArticle env generateContent article w) =
     Inr (generateRandomArticle_fallback env)"
  using assms
  by (auto simp: generateRandomArticle_def generateRandomArticle_result_def parsedPayload_def
      get_prop_def
      simp del: retryRequest.simps split: prod.splits sum.splits option.splits if_splits)

lemmas parse_simps = json_parse_def expect_def isJsonSpace_def parse_number_def isDigit_def
  digitValue_def quoted_def utf8_def utf8_encode_def char_of_def bit_0

lemma parse_empty_object: "json_parse ''{}'' = Some (JObject [])"
  by (simp add: parse_simps)

lemma parse_null: "json_parse ''null'' = Some JNull"
  by (simp add: parse_simps)

lemma parse_payloadTitleOnly:
  "json_parse payloadTitleOnly = Some (JObject [(''title'', JString ''T'')])"
  by (simp add: payloadTitleOnly_def parse_simps)

lemma parse_payloadValid:
  "json_parse payloadValid =
     Some (JObject [(''title'', JString ''T''), (''content'', JString ''C''),
                    (''category'', JString (utf8 [0xACBD, 0xC81C])), (''extra'', JNumber 1)])"
  by (simp add: payloadValid_def parse_simps)

lemma parse_payloadUnknownCategory:
  "json_parse payloadUnknownCategory =
     Some (JObject [(''title'', JString ''T''), (''content'', JString ''C''),
                    (''category'', JString ''Weather'')])"
  by (simp add: payloadUnknownCategory_def parse_simps)

lemma payloadValid_not_empty: "payloadValid \<noteq> []"
  by (simp add: payloadValid_def)

lemma payloadUnknownCategory_not_empty: "payloadUnknownCategory \<noteq> []"
  by (simp add: payloadUnknownCategory_def)

lemma payloadTitleOnly_not_empty: "payloadTitleOnly \<noteq> []"
  by (simp add: payloadTitleOnly_def)

lemma parsedPayload_respond:
  "txt \<noteq> [] \<Longrightarrow>
   parsedPayload exampleEnv (fst (retryRequest (respond (Some txt) req) r d w)) = json_parse txt"
  by (simp add: retryRequest_respond parsedPayload_def exampleEnv_def del: retryRequest.simps)

lemma example_categories:
  "utf8 [0xACBD, 0xC81C] \<in> set (ArticleCategory_values exampleEnv) \<and>
   ''Weather'' \<notin> set (ArticleCategory_values exampleEnv) \<and>
   ArticleCategory_SOCIETY exampleEnv = utf8 [0xC0AC, 0xD68C]"
  by (simp add: exampleEnv_def utf8_def utf8_encode_def char_of_def bit_0)

text \<open>
  C5, as the code has it.  A payload whose text parses is not checked against the declared
  schema, and a value that lacks required members is not treated as malformed:
  \<open>analyzeArticle\<close> and \<open>generateReplyReaction\<close> return the parsed value as it is, and
  \<open>generateRandomArticle\<close>, for a parsed value other than \<open>null\<close>, returns its \<open>title\<close> and
  \<open>content\<close> as they are, \<open>undefined\<close> when missing, with the category \<open>SOCIETY\<close> when
  \<open>category\<close> is missing.
\<close>

theorem parsed_payload_not_validated:
  "(parsedPayload env
      (fst (retryRequest (generateContent (analyzeArticle_request env article)) 3 2000 w)) =
      Some data
    \<longrightarrow> fst (analyzeArticle env generateContent article w) = Inr data) \<and>
   (parsedPayload env
      (fst (retryRequest
         (generateContent (generateReplyReaction_request env article originalComment reporterReply))
         3 2000 w)) = Some data
    \<longrightarrow> fst (generateReplyReaction env generateContent article originalComment reporterReply w) =
          Inr data) \<and>
   (parsedPayload env
      (fst (retryRequest (generateContent (generateRandomArticle_request env article)) 3 2000 w)) =
      Some (JObject members)
    \<longrightarrow> fst (generateRandomArticle env generateContent article w) =
          Inr [(''title'', map_of (rev members) ''title''),
               (''content'', map_of (rev members) ''content''),
               (''category'',
                  if isCategory env (map_of (rev members) ''category'')
                  then map_of (rev members) ''category''
                  else Some (JString (ArticleCategory_SOCIETY env)))]) \<and>
   (parsedPayload env
      (fst (retryRequest (generateContent (generateRandomArticle_request env article)) 3 2000 w)) =
      Some data \<and> data \<noteq> JNull \<and> (\<forall>members. data \<noteq> JObject members)
    \<longrightarrow> fst (generateRandomArticle env generateContent article w) =
          Inr [(''title'', None), (''content'', None),
               (''category'', Some (JString (ArticleCategory_SOCIETY env)))])"
proof (intro conjI impI)
  assume "parsedPayload env
      (fst (retryRequest (generateContent (analyzeArticle_request env article)) 3 2000 w)) =
      Some data"
  then show "fst (analyzeArticle env generateContent article w) = Inr data"
    by (rule analyzeArticle_parsed)
next
  assume "parsedPayload env
      (fst (retryRequest
         (generateContent (generateReplyReaction_request env article originalComment reporterReply))
         3 2000 w)) = Some data"
  then show "fst (generateReplyReaction env generateContent article originalComment
      reporterReply w) = Inr data"
    by (rule generateReplyReaction_parsed)
next
  assume a: "parsedPayload env
      (fst (retryRequest (generateContent (generateRandomArticle_request env article)) 3 2000 w)) =
      Some (JObject members)"
  show "fst (generateRandomArticle env generateContent article w) =
          Inr [(''title'', map_of (rev members) ''title''),
               (''content'', map_of (rev members) ''content''),
               (''category'',
                  if isCategory env (map_of (rev members) ''category'')
                  then map_of (rev members) ''category''
                  else Some (JString (ArticleCategory_SOCIETY env)))]"
    using a
      generateRandomArticle_parsed [of env generateContent article w "JObject members"
        "map_of (rev members) ''title''" "map_of (rev members) ''content''"
        "map_of (rev members) ''category''"]
    by (simp add: get_prop_def del: retryRequest.simps)
next
  assume a: "parsedPayload env
      (fst (retryRequest (generateContent (generateRandomArticle_request env article)) 3 2000 w)) =
      Some data \<and> data \<noteq> JNull \<and> (\<forall>members. data \<noteq> JObject members)"
  then have p: "get_prop data key = Inr None" for key
    by (cases data) (simp_all add: get_prop_def)
  have "isCategory env None = False"
    by (simp add: isCategory_def)
  then show "fst (generateRandomArticle env generateContent article w) =
          Inr [(''title'', None), (''content'', None),
               (''category'', Some (JString (ArticleCategory_SOCIETY env)))]"
    using a p generateRandomArticle_parsed [of env generateContent article w data None None None]
    by (simp del: retryRequest.simps)
qed

theorem parsed_payload_not_validated_witness:
  "fst (analyzeArticle exampleEnv (respond (Some ''{}'')) exampleArticle startWorld) =
     Inr (JObject []) \<and>
   fst (generateReplyReaction exampleEnv (respond (Some ''{}'')) exampleArticle exampleComment
      ''Thanks'' startWorld) = Inr (JObject []) \<and>
   fst (generateRandomArticle exampleEnv (respond (Some payloadTitleOnly)) exampleArticle
      startWorld) =
     Inr [(''title'', Some (JString ''T'')), (''content'', None),
          (''category'', Some (JString (utf8 [0xC0AC, 0xD68C])))]"
proof -
  have a: "parsedPayload exampleEnv
     (fst (retryRequest (respond (Some ''{}'') req) 3 2000 startWorld)) = Some (JObject [])"
    for req
    by (simp add: parsedPayload_respond parse_empty_object del: retryRequest.simps)
  have b: "parsedPayload exampleEnv
     (fst (retryRequest (respond (Some payloadTitleOnly) req) 3 2000 startWorld)) =
     Some (JObject [(''title'', JString ''T'')])" for req
    by (simp add: parsedPayload_respond parse_payloadTitleOnly payloadTitleOnly_not_empty
        del: retryRequest.simps)
  have c: "isCategory exampleEnv None = False"
    by (simp add: isCategory_def)
  show ?thesis
    using parsed_payload_not_validated [of exampleEnv "respond (Some ''{}'')" exampleArticle
        startWorld "JObject []" exampleComment "''Thanks''" "[]"]
      parsed_payload_not_validated [of exampleEnv "respond (Some payloadTitleOnly)"
        exampleArticle startWorld "JObject [(''title'', JString ''T'')]" exampleComment
        "''Thanks''" "[(''title'', JString ''T'')]"]
    by (simp add: a b c example_categories del: retryRequest.simps)
qed

text \<open>
  The claim C5 as it is worded fails: the text \<open>{}\<close> parses, the value lacks every member
  that the schema of \<open>analyzeArticle\<close> requires, and \<open>analyzeArticle\<close> returns it, not the
  fallback object; a payload with the title only makes \<open>generateRandomArticle\<close> return that
  title with an undefined content.
\<close>

theorem missing_required_counterexample:
  "json_parse ''{}'' = Some (JObject []) \<and>
   missingRequired analyzeArticle_schema (JObject []) \<and>
   fst (analyzeArticle exampleEnv (respond (Some ''{}'')) exampleArticle startWorld) =
     Inr (JObject []) \<and>
   JObject [] \<noteq> analyzeArticle_fallback \<and>
   missingRequired generateRandomArticle_schema (JObject [(''title'', JString ''T'')]) \<and>
   fst (generateRandomArticle exampleEnv (respond (Some payloadTitleOnly)) exampleArticle
      startWorld) \<noteq> Inr (generateRandomArticle_fallback exampleEnv)"
proof -
  have a: "parsedPayload exampleEnv
     (fst (retryRequest (respond (Some ''{}'') req) 3 2000 startWorld)) = Some (JObject [])"
    for req
    by (simp add: parsedPayload_respond parse_empty_object del: retryRequest.simps)
  have b: "parsedPayload exampleEnv
     (fst (retryRequest (respond (Some payloadTitleOnly) req) 3 2000 startWorld)) =
     Some (JObject [(''title'', JString ''T'')])" for req
    by (simp add: parsedPayload_respond parse_payloadTitleOnly payloadTitleOnly_not_empty
        del: retryRequest.simps)
  have r: "fst (generateRandomArticle exampleEnv (respond (Some payloadTitleOnly))
      exampleArticle startWorld) =
     Inr [(''title'', Some (JString ''T'')), (''content'', None),
          (''category'',
             if isCategory exampleEnv None then None
             else Some (JString (ArticleCategory_SOCIETY exampleEnv)))]"
    using b [of "generateRandomArticle_request exampleEnv exampleArticle"]
      generateRandomArticle_parsed [of exampleEnv "respond (Some payloadTitleOnly)"
        exampleArticle startWorld "JObject [(''title'', JString ''T'')]"
        "Some (JString ''T'')" None None]
    by (simp add: get_prop_def del: retryRequest.simps)
  have m1: "missingRequired analyzeArticle_schema (JObject [])"
    by (simp add: missingRequired_def analyzeArticle_schema_def get_prop_def)
  have m2: "missingRequired generateRandomArticle_schema (JObject [(''title'', JString ''T'')])"
    by (simp add: missingRequired_def generateRandomArticle_schema_def get_prop_def)
  have n: "JObject [] \<noteq> analyzeArticle_fallback"
    by (simp add: analyzeArticle_fallback_def)
  show ?thesis
    using a [of "analyzeArticle_request exampleEnv exampleArticle"]
      analyzeArticle_parsed [of exampleEnv "respond (Some ''{}'')" exampleArticle startWorld
        "JObject []"] m1 m2 n
    by (simp add: parse_empty_object r generateRandomArticle_fallback_def
        del: retryRequest.simps)
qed

text \<open>
  C8.  When the parsed payload of the random-article flow has a string \<open>c\<close> as its
  category, the function returns normally, and the category of the result is \<open>c\<close> itself if
  \<open>c\<close> is a value of \<open>ArticleCategory\<close> and \<open>SOCIETY\<close> otherwise.
\<close>

theorem category_defaults_to_society:
  assumes "parsedPayload env
     (fst (retryRequest (generateContent (generateRandomArticle_request env article)) 3 2000 w)) =
     Some data"
    and "get_prop data ''category'' = Inr (Some (JString c))"
  shows "\<exists>t co. fst (generateRandomArticle env generateContent article w) =
     Inr [(''title'', t), (''content'', co),
          (''category'',
             Some (JString (if c \<in> set (ArticleCategory_values env) then c
                            else ArticleCategory_SOCIETY env)))]"
proof -
  have "data \<noteq> JNull"
    using assms(2) by (rule get_prop_Inr_not_null)
  then obtain t co where "get_prop data ''title'' = Inr t" "get_prop data ''content'' = Inr co"
    using get_prop_not_null by blast
  then show ?thesis
    using assms
      generateRandomArticle_parsed [of env generateContent article w data t co
        "Some (JString c)"]
    by (auto simp: isCategory_def simp del: retryRequest.simps)
qed

theorem category_defaults_to_society_witness:
  "fst (generateRandomArticle exampleEnv (respond (Some payloadValid)) exampleArticle
      startWorld) =
     Inr [(''title'', Some (JString ''T'')), (''content'', Some (JString ''C'')),
          (''category'', Some (JString (utf8 [0xACBD, 0xC81C])))] \<and>
   fst (generateRandomArticle exampleEnv (respond (Some payloadUnknownCategory)) exampleArticle
      startWorld) =
     Inr [(''title'', Some (JString ''T'')), (''content'', Some (JString ''C'')),
          (''category'', Some (JString (utf8 [0xC0AC, 0xD68C])))]"
proof -
  let ?v = "JObject [(''title'', JString ''T''), (''content'', JString ''C''),
                    (''category'', JString (utf8 [0xACBD, 0xC81C])), (''extra'', JNumber 1)]"
  let ?u = "JObject [(''title'', JString ''T''), (''content'', JString ''C''),
                    (''category'', JString ''Weather'')]"
  have a: "parsedPayload exampleEnv
     (fst (retryRequest (respond (Some payloadValid)
        (generateRandomArticle_request exampleEnv exampleArticle)) 3 2000 startWorld)) = Some ?v"
    by (simp add: parsedPayload_respond parse_payloadValid payloadValid_not_empty
        del: retryRequest.simps)
  have b: "parsedPayload exampleEnv
     (fst (retryRequest (respond (Some payloadUnknownCategory)
        (generateRandomArticle_request exampleEnv exampleArticle)) 3 2000 startWorld)) = Some ?u"
    by (simp add: parsedPayload_respond parse_payloadUnknownCategory
        payloadUnknownCategory_not_empty del: retryRequest.simps)
  have ca: "get_prop ?v ''category'' = Inr (Some (JString (utf8 [0xACBD, 0xC81C])))"
    by (simp add: get_prop_def)
  have cb: "get_prop ?u ''category'' = Inr (Some (JString ''Weather''))"
    by (simp add: get_prop_def)
  have ra: "fst (generateRandomArticle exampleEnv (respond (Some payloadValid)) exampleArticle
      startWorld) =
     Inr [(''title'', Some (JString ''T'')), (''content'', Some (JString ''C'')),
          (''category'',
             if isCategory exampleEnv (Some (JString (utf8 [0xACBD, 0xC81C])))
             then Some (JString (utf8 [0xACBD, 0xC81C]))
             else Some (JString (ArticleCategory_SOCIETY exampleEnv)))]"
    using a
      generateRandomArticle_parsed [of exampleEnv "respond (Some payloadValid)" exampleArticle
        startWorld ?v "Some (JString ''T'')" "Some (JString ''C'')"
        "Some (JString (utf8 [0xACBD, 0xC81C]))"]
    by (simp add: get_prop_def del: retryRequest.simps)
  have rb: "fst (generateRandomArticle exampleEnv (respond (Some payloadUnknownCategory))
      exampleArticle startWorld) =
     Inr [(''title'', Some (JString ''T'')), (''content'', Some (JString ''C'')),
          (''category'',
             if isCategory exampleEnv (Some (JString ''Weather''))
             then Some (JString ''Weather'')
             else Some (JString (ArticleCategory_SOCIETY exampleEnv)))]"
    using b
      generateRandomArticle_parsed [of exampleEnv "respond (Some payloadUnknownCategory)"
        exampleArticle startWorld ?u "Some (JString ''T'')" "Some (JString ''C'')"
        "Some (JString ''Weather'')"]
    by (simp add: get_prop_def del: retryRequest.simps)
  show ?thesis
    using a b ca cb
      category_defaults_to_society [of exampleEnv "respond (Some payloadValid)" exampleArticle
        startWorld ?v "utf8 [0xACBD, 0xC81C]"]
      category_defaults_to_society [of exampleEnv "respond (Some payloadUnknownCategory)"
        exampleArticle startWorld ?u "''Weather''"]
    by (simp add: ra rb isCategory_def example_categories del: retryRequest.simps)
qed

text \<open>
  C10, as the code has it.  When the payload parses to a value other than \<open>null\<close>, the
  result of \<open>generateRandomArticle\<close> has exactly the keys \<open>title\<close>, \<open>content\<close> and \<open>category\<close>,
  in this order, whatever other members the payload has, and its \<open>title\<close> and \<open>content\<close> are
  the values of \<open>data.title\<close> and \<open>data.content\<close> as they are.
\<close>

theorem result_has_three_keys:
  assumes "parsedPayload env
     (fst (retryRequest (generateContent (generateRandomArticle_request env article)) 3 2000 w)) =
     Some data"
    and "data \<noteq> JNull"
  shows "\<exists>result t c.
     fst (generateRandomArticle env generateContent article w) = Inr result \<and>
     map fst result = [''title'', ''content'', ''category''] \<and>
     get_prop data ''title'' = Inr t \<and> map_of result ''title'' = Some t \<and>
     get_prop data ''content'' = Inr c \<and> map_of result ''content'' = Some c"
proof -
  obtain t c catStr where p: "get_prop data ''title'' = Inr t"
    "get_prop data ''content'' = Inr c" "get_prop data ''category'' = Inr catStr"
    using get_prop_not_null [OF assms(2)] by metis
  show ?thesis
    using assms(1) p
      generateRandomArticle_parsed [of env generateContent article w data t c catStr]
    by (simp del: retryRequest.simps)
qed

theorem result_has_three_keys_witness:
  "\<exists>result.
     fst (generateRandomArticle exampleEnv (respond (Some payloadValid)) exampleArticle
        startWorld) = Inr result \<and>
     map fst result = [''title'', ''content'', ''category''] \<and>
     map_of result ''title'' = Some (Some (JString ''T'')) \<and>
     map_of result ''content'' = Some (Some (JString ''C''))"
proof -
  let ?v = "JObject [(''title'', JString ''T''), (''content'', JString ''C''),
                    (''category'', JString (utf8 [0xACBD, 0xC81C])), (''extra'', JNumber 1)]"
  have a: "parsedPayload exampleEnv
     (fst (retryRequest (respond (Some payloadValid)
        (generateRandomArticle_request exampleEnv exampleArticle)) 3 2000 startWorld)) = Some ?v"
    by (simp add: parsedPayload_respond parse_payloadValid payloadValid_not_empty
        del: retryRequest.simps)
  have n: "?v \<noteq> JNull" by simp
  show ?thesis
    using a n
      result_has_three_keys [of exampleEnv "respond (Some payloadValid)" exampleArticle
        startWorld ?v]
    by (auto simp: get_prop_def simp del: retryRequest.simps)
qed

text \<open>
  The claim C10 as it is worded fails when the payload parses to \<open>null\<close>: reading
  \<open>data.category\<close> throws, and the result is the fallback object, whose title is the fixed
  failure title and not a value of the payload.
\<close>

theorem null_payload_counterexample:
  "json_parse ''null'' = Some JNull \<and>
   get_prop JNull ''title'' = Inl TypeError \<and>
   fst (generateRandomArticle exampleEnv (respond (Some ''null'')) exampleArticle startWorld) =
     Inr [(''title'', Some (JString FAIL_TITLE)),
          (''content'', Some (JString FAIL_CONTENT)),
          (''category'', Some (JString (utf8 [0xC0AC, 0xD68C])))]"
proof -
  have a: "parsedPayload exampleEnv
     (fst (retryRequest (respond (Some ''null'')
        (generateRandomArticle_request exampleEnv exampleArticle)) 3 2000 startWorld)) =
     Some JNull"
    by (simp add: parsedPayload_respond parse_null del: retryRequest.simps)
  show ?thesis
    using a
      generateRandomArticle_null [of exampleEnv "respond (Some ''null'')" exampleArticle
        startWorld]
    by (simp add: parse_null get_prop_def generateRandomArticle_fallback_def example_categories
        del: retryRequest.simps)
qed

section \<open>Properties of the era context and of the prompts\<close>
























subsection \<open>The mode directives\<close>

lemma blocks_distinct: "distinct [BLOCK_EMERGENCY, BLOCK_CRAZY, BLOCK_FAKE, BLOCK_NORMAL]"
  by (simp add: BLOCK_EMERGENCY_def BLOCK_CRAZY_def BLOCK_FAKE_def BLOCK_NORMAL_def utf8_def
      utf8_encode_def)

lemma modes_distinct: "distinct [MODE_EMERGENCY, MODE_CRAZY, MODE_FAKE, MODE_DEFAULT]"
  by (simp add: MODE_EMERGENCY_def MODE_CRAZY_def MODE_FAKE_def MODE_DEFAULT_def utf8_def
      utf8_encode_def)

lemma modeInstructions_eq:
  "modeInstructions article =
     (if isEmergencyMode article then [BLOCK_EMERGENCY] else []) @
     (if isCrazyMode article then [BLOCK_CRAZY] else []) @
     (if isFakeNews article then [BLOCK_FAKE] else []) @
     (if \<not> isEmergencyMode article \<and> \<not> isCrazyMode article \<and> \<not> isFakeNews article
      then [BLOCK_NORMAL] else [])"
  by (simp add: modeInstructions_def push_def Let_def)

lemma normal_block_iff:
  "BLOCK_NORMAL \<in> set (modeInstructions article) \<longleftrightarrow>
     \<not> isEmergencyMode article \<and> \<not> isCrazyMode article \<and> \<not> isFakeNews article"
  using blocks_distinct by (auto simp: modeInstructions_eq)

lemma join_modeInstructions:
  "join (modeInstructions article) [CHR 0x0A] =
     (if isEmergencyMode article then
        (if isCrazyMode article then
           (if isFakeNews article
            then BLOCK_EMERGENCY @ [CHR 0x0A] @ BLOCK_CRAZY @ [CHR 0x0A] @ BLOCK_FAKE
            else BLOCK_EMERGENCY @ [CHR 0x0A] @ BLOCK_CRAZY)
         else
           (if isFakeNews article then BLOCK_EMERGENCY @ [CHR 0x0A] @ BLOCK_FAKE
            else BLOCK_EMERGENCY))
      else
        (if isCrazyMode article then
           (if isFakeNews article then BLOCK_CRAZY @ [CHR 0x0A] @ BLOCK_FAKE else BLOCK_CRAZY)
         else (if isFakeNews article then BLOCK_FAKE else BLOCK_NORMAL)))"
  by (simp add: modeInstructions_eq)

text \<open>
  C6.  For every combination of the three flags the directives of \<open>analyzeArticle\<close> are the
  blocks of the flags that are set, in the order emergency, crazy, fake news, followed by the
  default block exactly when no flag is set.  The prompt holds, between its two fixed tags,
  these blocks one after the other with a line break between two of them: for each of the
  eight combinations the text is the one spelled out below.
\<close>

theorem mode_blocks_accumulate:
  "modeInstructions article =
     (if isEmergencyMode article then [BLOCK_EMERGENCY] else []) @
     (if isCrazyMode article then [BLOCK_CRAZY] else []) @
     (if isFakeNews article then [BLOCK_FAKE] else []) @
     (if \<not> isEmergencyMode article \<and> \<not> isCrazyMode article \<and> \<not> isFakeNews article
      then [BLOCK_NORMAL] else []) \<and>
   (BLOCK_NORMAL \<in> set (modeInstructions article) \<longleftrightarrow>
      \<not> isEmergencyMode article \<and> \<not> isCrazyMode article \<and> \<not> isFakeNews article) \<and>
   contents (analyzeArticle_request env article) =
     ANALYZE_PROMPT_0 @ eraContextFull env article @
     ANALYZE_PROMPT_1 @ previousContext article @
     ANALYZE_PROMPT_2 @ title article @
     ANALYZE_PROMPT_3 @ category article @
     ANALYZE_PROMPT_4 @ Article.content article @
     ANALYZE_PROMPT_5 @ author article @
     ANALYZE_PROMPT_6 @
     (if isEmergencyMode article then
        (if isCrazyMode article then
           (if isFakeNews article
            then BLOCK_EMERGENCY @ [CHR 0x0A] @ BLOCK_CRAZY @ [CHR 0x0A] @ BLOCK_FAKE
            else BLOCK_EMERGENCY @ [CHR 0x0A] @ BLOCK_CRAZY)
         else
           (if isFakeNews article then BLOCK_EMERGENCY @ [CHR 0x0A] @ BLOCK_FAKE
            else BLOCK_EMERGENCY))
      else
        (if isCrazyMode article then
           (if isFakeNews article then BLOCK_CRAZY @ [CHR 0x0A] @ BLOCK_FAKE else BLOCK_CRAZY)
         else (if isFakeNews article then BLOCK_FAKE else BLOCK_NORMAL))) @
     ANALYZE_PROMPT_7 \<and>
   join (modeInstructions article) [CHR 0x0A] =
     (if isEmergencyMode article then
        (if isCrazyMode article then
           (if isFakeNews article
            then BLOCK_EMERGENCY @ [CHR 0x0A] @ BLOCK_CRAZY @ [CHR 0x0A] @ BLOCK_FAKE
            else BLOCK_EMERGENCY @ [CHR 0x0A] @ BLOCK_CRAZY)
         else
           (if isFakeNews article then BLOCK_EMERGENCY @ [CHR 0x0A] @ BLOCK_FAKE
            else BLOCK_EMERGENCY))
      else
        (if isCrazyMode article then
           (if isFakeNews article then BLOCK_CRAZY @ [CHR 0x0A] @ BLOCK_FAKE else BLOCK_CRAZY)
         else (if isFakeNews article then BLOCK_FAKE else BLOCK_NORMAL)))"
proof (intro conjI)
  show "modeInstructions article =
     (if isEmergencyMode article then [BLOCK_EMERGENCY] else []) @
     (if isCrazyMode article then [BLOCK_CRAZY] else []) @
     (if isFakeNews article then [BLOCK_FAKE] else []) @
     (if \<not> isEmergencyMode article \<and> \<not> isCrazyMode article \<and> \<not> isFakeNews article
      then [BLOCK_NORMAL] else [])"
    by (rule modeInstructions_eq)
  show "BLOCK_NORMAL \<in> set (modeInstructions article) \<longleftrightarrow>
      \<not> isEmergencyMode article \<and> \<not> isCrazyMode article \<and> \<not> isFakeNews article"
    by (rule normal_block_iff)
  have "contents (analyzeArticle_request env article) =
     ANALYZE_PROMPT_0 @ eraContextFull env article @
     ANALYZE_PROMPT_1 @ previousContext article @
     ANALYZE_PROMPT_2 @ title article @
     ANALYZE_PROMPT_3 @ category article @
     ANALYZE_PROMPT_4 @ Article.content article @
     ANALYZE_PROMPT_5 @ author article @
     ANALYZE_PROMPT_6 @ join (modeInstructions article) [CHR 0x0A] @
     ANALYZE_PROMPT_7"
    by (simp add: analyzeArticle_request_def analyzeArticle_prompt_def)
  then show "contents (analyzeArticle_request env article) =
     ANALYZE_PROMPT_0 @ eraContextFull env article @
     ANALYZE_PROMPT_1 @ previousContext article @
     ANALYZE_PROMPT_2 @ title article @
     ANALYZE_PROMPT_3 @ category article @
     ANALYZE_PROMPT_4 @ Article.content article @
     ANALYZE_PROMPT_5 @ author article @
     ANALYZE_PROMPT_6 @
     (if isEmergencyMode article then
        (if isCrazyMode article then
           (if isFakeNews article
            then BLOCK_EMERGENCY @ [CHR 0x0A] @ BLOCK_CRAZY @ [CHR 0x0A] @ BLOCK_FAKE
            else BLOCK_EMERGENCY @ [CHR 0x0A] @ BLOCK_CRAZY)
         else
           (if isFakeNews article then BLOCK_EMERGENCY @ [CHR 0x0A] @ BLOCK_FAKE
            else BLOCK_EMERGENCY))
      else
        (if isCrazyMode article then
           (if isFakeNews article then BLOCK_CRAZY @ [CHR 0x0A] @ BLOCK_FAKE else BLOCK_CRAZY)
         else (if isFakeNews article then BLOCK_FAKE else BLOCK_NORMAL))) @
     ANALYZE_PROMPT_7"
    by (simp only: join_modeInstructions)
  show "join (modeInstructions article) [CHR 0x0A] =
     (if isEmergencyMode article then
        (if isCrazyMode article then
           (if isFakeNews article
            then BLOCK_EMERGENCY @ [CHR 0x0A] @ BLOCK_CRAZY @ [CHR 0x0A] @ BLOCK_FAKE
            else BLOCK_EMERGENCY @ [CHR 0x0A] @ BLOCK_CRAZY)
         else
           (if isFakeNews article then BLOCK_EMERGENCY @ [CHR 0x0A] @ BLOCK_FAKE
            else BLOCK_EMERGENCY))
      else
        (if isCrazyMode article then
           (if isFakeNews article then BLOCK_CRAZY @ [CHR 0x0A] @ BLOCK_FAKE else BLOCK_CRAZY)
         else (if isFakeNews article then BLOCK_FAKE else BLOCK_NORMAL)))"
    by (rule join_modeInstructions)
qed

theorem mode_blocks_accumulate_witness:
  "modeInstructions
      (exampleArticle\<lparr>isEmergencyMode := True, isCrazyMode := True, isFakeNews := True\<rparr>) =
     [BLOCK_EMERGENCY, BLOCK_CRAZY, BLOCK_FAKE] \<and>
   modeInstructions (exampleArticle\<lparr>isEmergencyMode := True, isFakeNews := True\<rparr>) =
     [BLOCK_EMERGENCY, BLOCK_FAKE] \<and>
   modeInstructions exampleArticle = [BLOCK_NORMAL] \<and>
   join (modeInstructions
      (exampleArticle\<lparr>isEmergencyMode := True, isCrazyMode := True, isFakeNews := True\<rparr>))
      [CHR 0x0A] =
     BLOCK_EMERGENCY @ [CHR 0x0A] @ BLOCK_CRAZY @ [CHR 0x0A] @ BLOCK_FAKE \<and>
   join (modeInstructions (exampleArticle\<lparr>isEmergencyMode := True, isFakeNews := True\<rparr>))
      [CHR 0x0A] =
     BLOCK_EMERGENCY @ [CHR 0x0A] @ BLOCK_FAKE \<and>
   join (modeInstructions (exampleArticle\<lparr>isCrazyMode := True\<rparr>)) [CHR 0x0A] = BLOCK_CRAZY \<and>
   join (modeInstructions exampleArticle) [CHR 0x0A] = BLOCK_NORMAL"
  using mode_blocks_accumulate
      [of "exampleArticle\<lparr>isEmergencyMode := True, isCrazyMode := True, isFakeNews := True\<rparr>"
        exampleEnv]
    mode_blocks_accumulate
      [of "exampleArticle\<lparr>isEmergencyMode := True, isFakeNews := True\<rparr>" exampleEnv]
    mode_blocks_accumulate [of "exampleArticle\<lparr>isCrazyMode := True\<rparr>" exampleEnv]
    mode_blocks_accumulate [of exampleArticle exampleEnv]
  by (simp add: exampleArticle_def)

text \<open>
  C7.  For every combination of the three flags the prompt of \<open>generateRandomArticle\<close> holds
  one mode directive, in its second slot: the emergency directive if the emergency flag is
  set, else the crazy directive if the crazy flag is set, else the fake-news directive if the
  fake-news flag is set, else the default directive.  The four directives are different
  texts, so with the emergency flag set the directive is neither the crazy nor the fake-news
  one, whatever the other flags.
\<close>

theorem mode_directive_priority:
  "contents (generateRandomArticle_request env article) =
     RANDOM_PROMPT_0 @ getEraContext env article @
     RANDOM_PROMPT_1 @ modeInstruction article @
     RANDOM_PROMPT_2 \<and>
   (isEmergencyMode article \<longrightarrow> modeInstruction article = MODE_EMERGENCY) \<and>
   (\<not> isEmergencyMode article \<and> isCrazyMode article \<longrightarrow>
      modeInstruction article = MODE_CRAZY) \<and>
   (\<not> isEmergencyMode article \<and> \<not> isCrazyMode article \<and> isFakeNews article \<longrightarrow>
      modeInstruction article = MODE_FAKE) \<and>
   (\<not> isEmergencyMode article \<and> \<not> isCrazyMode article \<and> \<not> isFakeNews article \<longrightarrow>
      modeInstruction article = MODE_DEFAULT) \<and>
   length (filter (\<lambda>d. d = modeInstruction article)
      [MODE_EMERGENCY, MODE_CRAZY, MODE_FAKE, MODE_DEFAULT]) = 1 \<and>
   (isEmergencyMode article \<longrightarrow>
      modeInstruction article \<noteq> MODE_CRAZY \<and> modeInstruction article \<noteq> MODE_FAKE \<and>
      modeInstruction article \<noteq> MODE_DEFAULT)"
  using modes_distinct
  by (auto simp: generateRandomArticle_request_def generateRandomArticle_prompt_def
      modeInstruction_def)

theorem mode_directive_priority_witness:
  "modeInstruction
      (exampleArticle\<lparr>isEmergencyMode := True, isCrazyMode := True, isFakeNews := True\<rparr>) =
     MODE_EMERGENCY \<and>
   modeInstruction (exampleArticle\<lparr>isCrazyMode := True, isFakeNews := True\<rparr>) = MODE_CRAZY \<and>
   modeInstruction (exampleArticle\<lparr>isFakeNews := True\<rparr>) = MODE_FAKE \<and>
   modeInstruction exampleArticle = MODE_DEFAULT \<and>
   MODE_EMERGENCY \<noteq> MODE_CRAZY \<and> MODE_EMERGENCY \<noteq> MODE_FAKE"
  using mode_directive_priority
      [of exampleEnv
        "exampleArticle\<lparr>isEmergencyMode := True, isCrazyMode := True, isFakeNews := True\<rparr>"]
    mode_directive_priority [of exampleEnv "exampleArticle\<lparr>isCrazyMode := True, isFakeNews := True\<rparr>"]
    mode_directive_priority [of exampleEnv "exampleArticle\<lparr>isFakeNews := True\<rparr>"]
    mode_directive_priority [of exampleEnv exampleArticle]
  by (auto simp: exampleArticle_def)

end
